theory Spec2Isabelle
  imports Complex_Main
begin

section \<open>Numbers, vectors and orbital states\<close>

text \<open>
  The program is JavaScript. Its numbers are IEEE doubles; they are modelled here by the
  real numbers, so rounding, overflow, signed zeros, infinities and NaN are outside the
  model. Where the source divides by a quantity that can be zero (the orbital radius
  \<open>r\<close>), HOL's \<open>a / 0 = 0\<close> is not what JavaScript computes, and the theorems
  about such functions carry the hypothesis that the radius is positive.

  \<^verbatim>\<open>Math.hypot(a, b)\<close> is \<open>sqrt (a*a + b*b)\<close>; \<^verbatim>\<open>Math.pow(a, 3)\<close> and \<^verbatim>\<open>a ** 3\<close>
  are \<open>a ^ 3\<close>.
\<close>

definition hypot :: "real \<Rightarrow> real \<Rightarrow> real" where
  "hypot a b = sqrt (a * a + b * b)"

record vec =
  xc :: real
  yc :: real

record orbit_state =
  pos :: vec
  vel :: vec

text \<open>\<^verbatim>\<open>const mu = 3.986004418e14\<close> and \<^verbatim>\<open>const earthRadius = 6371000\<close>, as every
  controller variant declares them.\<close>

definition mu_earth :: real where
  "mu_earth = 398600441800000"

definition earthRadius :: real where
  "earthRadius = 6371000"

section \<open>Orbital element calculator\<close>

text \<open>
  \<^verbatim>\<open>getEccentricity(state)\<close> and \<^verbatim>\<open>getSMA(state)\<close> are the same text in the three
  queue-based controller variants. Both start with
  \<^verbatim>\<open>const r = Math.hypot(state.pos.x, state.pos.y);
  const v2 = state.vel.x**2 + state.vel.y**2;
  const energy = v2/2 - mu/r;\<close>
  which is \<open>orbitEnergy\<close> below; \<open>angularMomentum\<close> is the source's
  \<^verbatim>\<open>h = Math.abs(state.pos.x * state.vel.y - state.pos.y * state.vel.x)\<close>.
\<close>

definition radius :: "orbit_state \<Rightarrow> real" where
  "radius s = hypot (xc (pos s)) (yc (pos s))"

definition orbitEnergy :: "orbit_state \<Rightarrow> real" where
  "orbitEnergy s =
     (let r = radius s;
          v2 = (xc (vel s))^2 + (yc (vel s))^2
      in v2 / 2 - mu_earth / r)"

definition angularMomentum :: "orbit_state \<Rightarrow> real" where
  "angularMomentum s = \<bar>xc (pos s) * yc (vel s) - yc (pos s) * xc (vel s)\<bar>"

definition getEccentricity :: "orbit_state \<Rightarrow> real" where
  "getEccentricity s =
     (let energy = orbitEnergy s in
      if energy \<ge> 0 then 1
      else
        let a = - mu_earth / (2 * energy);
            h = angularMomentum s;
            p = h * h / mu_earth
        in sqrt (max 0 (1 - p / a)))"

definition getSMA :: "orbit_state \<Rightarrow> real" where
  "getSMA s =
     (let r = radius s;
          energy = orbitEnergy s
      in if energy \<ge> 0 then r else - mu_earth / (2 * energy))"

section \<open>Transfer planner\<close>

record transfer =
  totalDv :: real
  circBurn :: real
  apoBurn :: real
  transferTime :: real
  a_transfer :: real

text \<open>\<^verbatim>\<open>HohmannPlanner.planTransfer(r1, r2, mu)\<close>; \<^verbatim>\<open>null\<close> is \<open>None\<close>.\<close>

definition planTransfer :: "real \<Rightarrow> real \<Rightarrow> real \<Rightarrow> transfer option" where
  "planTransfer r1 r2 mu =
     (if r1 \<ge> r2 then None
      else
        let a_t = (r1 + r2) / 2;
            v1 = sqrt (mu / r1);
            v2 = sqrt (mu / r2);
            v_t1 = sqrt (mu * (2 / r1 - 1 / a_t));
            v_t2 = sqrt (mu * (2 / r2 - 1 / a_t));
            circ = \<bar>v_t1 - v1\<bar>;
            apo = \<bar>v2 - v_t2\<bar>
        in Some \<lparr> totalDv = circ + apo, circBurn = circ, apoBurn = apo,
                   transferTime = pi * sqrt (a_t ^ 3 / mu), a_transfer = a_t \<rparr>)"

section \<open>Number formatting\<close>

text \<open>
  \<^verbatim>\<open>v.toFixed(f)\<close>: the sign, then the decimal digits of the integer nearest to
  \<open>|v| * 10^f\<close> (the larger one on a tie), padded with zeros to at least \<open>f + 1\<close> digits
  and with a point before the last \<open>f\<close> digits. (Values of \<open>1e21\<close> and more, which
  JavaScript prints in exponent notation, do not occur in the controller.) The burn queue
  compares the resulting strings, so two different numbers with the same rounding are
  the same text, as in the source.
\<close>

definition digit_char :: "nat \<Rightarrow> char" where
  "digit_char k = ''0123456789'' ! k"

fun digits_of :: "nat \<Rightarrow> string" where
  "digits_of n =
     (if n < 10 then [digit_char n] else digits_of (n div 10) @ [digit_char (n mod 10)])"

declare digits_of.simps [simp del]

definition toFixed :: "real \<Rightarrow> nat \<Rightarrow> string" where
  "toFixed v f =
     (let n = nat \<lfloor>\<bar>v\<bar> * 10 ^ f + 1 / 2\<rfloor>;
          m = digits_of n;
          padded = replicate (Suc f - length m) (CHR ''0'') @ m;
          k = length padded
      in (if v < 0 then ''-'' else []) @
         (if f = 0 then padded else take (k - f) padded @ ''.'' @ drop (k - f) padded))"

section \<open>Perturbation models\<close>

text \<open>
  The models of the 4-DOF controller variant. Each returns an object literal whose fields
  depend on the branch; a field the branch leaves out is \<open>None\<close>.
\<close>

record perturbation =
  needsCorrection :: bool
  deltaV :: "real option"
  direction :: "vec option"
  reason :: "string option"
  omegaDriftDeg :: "real option"

text \<open>\<^verbatim>\<open>calculateDragAcceleration(altitudeKm)\<close> of the 4-DOF variant.\<close>

definition calculateDragAcceleration_4dof :: "real \<Rightarrow> real" where
  "calculateDragAcceleration_4dof altitudeKm =
     (if altitudeKm < 150 then 1
      else
        let H = (if altitudeKm < 600 then 70 else 140);
            rho0 = 3 / 10 ^ 12;
            h0 = 400;
            density = rho0 * exp (- (altitudeKm - h0) / H);
            B = 150
        in (density * 220000) / (2 * B))"

text \<open>\<^verbatim>\<open>calculateDragAcceleration(altitudeKm)\<close> of the advanced and the final variant
  (the same text in both).\<close>

definition calculateDragAcceleration :: "real \<Rightarrow> real" where
  "calculateDragAcceleration altitudeKm =
     (if altitudeKm < 150 then 1 / 2
      else
        let H = (if altitudeKm < 700 then 65 else 150);
            rho0 = 25 / 10 ^ 13;
            h0 = 400;
            density = rho0 * exp (- (altitudeKm - h0) / H);
            ballisticCoeff = 140
        in (density * 60000000) / (2 * ballisticCoeff))"

definition calculateJ2Perturbation :: "real \<Rightarrow> real \<Rightarrow> real \<Rightarrow> perturbation" where
  "calculateJ2Perturbation sma ecc altitudeKm =
     (let J2 = 108262668 / 10 ^ 11;
          Re = 6378137;
          n = sqrt (mu_earth / sma ^ 3);
          inclinationDeg = (if altitudeKm > 500 \<and> altitudeKm < 600 then 98
                            else if ecc > 1 / 2 then 634 / 10 else 0);
          inclinationRad = inclinationDeg * pi / 180;
          sinI = sin inclinationRad;
          domega_dt = (3 / 4) * n * J2 * (Re / sma) ^ 2 * (4 - 5 * sinI * sinI);
          omegaDrift = domega_dt * (180 / pi) * 86400;
          threshold = (if ecc > 1 / 10 then 1 / 2 else 1 / 10)
      in if \<bar>omegaDrift\<bar> > threshold then
           let periodSeconds = 2 * pi / n;
               driftPerOrbit = domega_dt * periodSeconds;
               dv = \<bar>driftPerOrbit\<bar> * sma * (1 / 1000);
               dir = (if domega_dt > 0 then \<lparr> xc = - 1, yc = 0 \<rparr> else \<lparr> xc = 1, yc = 0 \<rparr>)
           in \<lparr> needsCorrection = dv > 5 / 100, deltaV = Some (min dv 2),
                direction = Some dir, reason = None, omegaDriftDeg = Some omegaDrift \<rparr>
         else \<lparr> needsCorrection = False, deltaV = None, direction = None, reason = None,
                omegaDriftDeg = Some omegaDrift \<rparr>)"

text \<open>
  \<^verbatim>\<open>calculateThirdBodyPerturbation(sma, ecc, altitudeKm, missionTime)\<close> calls
  \<^verbatim>\<open>Math.random()\<close> once in each of its three altitude branches. The number drawn is not
  an argument of the source function; it is the extra argument \<open>rnd\<close> here
  (\<open>0 \<le> rnd < 1\<close>), so that two calls of the source with the same arguments are two
  applications with the same first four arguments and possibly different \<open>rnd\<close>.
\<close>

definition calculateThirdBodyPerturbation ::
  "real \<Rightarrow> real \<Rightarrow> real \<Rightarrow> real \<Rightarrow> real \<Rightarrow> perturbation" where
  "calculateThirdBodyPerturbation sma ecc altitudeKm missionTime rnd =
     (if altitudeKm < 15000 then
        \<lparr> needsCorrection = False, deltaV = None, direction = None,
          reason = Some ''negligible at this altitude'', omegaDriftDeg = None \<rparr>
      else
        let (dvPerYear, rsn) =
              (if altitudeKm > 30000 \<and> altitudeKm < 40000 then
                 (45 + rnd * 10,
                  ''GEO E-W drift '' @ toFixed ((45 + rnd * 10) / 12) 1 @ '' m/s/month'')
               else if ecc > 1 / 2 then
                 (10 + rnd * 10,
                  ''HEO perturbation '' @ toFixed ((10 + rnd * 10) / 12) 1 @ '' m/s/month'')
               else if altitudeKm > 15000 then
                 (2 + rnd * 3,
                  ''MEO drift '' @ toFixed ((2 + rnd * 3) / 12) 1 @ '' m/s/month'')
               else (0, ''''));
            n = sqrt (mu_earth / sma ^ 3);
            periodSeconds = 2 * pi / n;
            orbitsPerYear = (36525 / 100 * 86400) / periodSeconds;
            dvPerOrbit = dvPerYear / orbitsPerYear;
            threshold = (if altitudeKm > 30000 then 1 / 2 else 1 / 5)
        in if dvPerOrbit > threshold then
             \<lparr> needsCorrection = True, deltaV = Some (min dvPerOrbit 5),
               direction = Some \<lparr> xc = 1, yc = 0 \<rparr>, reason = Some rsn, omegaDriftDeg = None \<rparr>
           else
             \<lparr> needsCorrection = False, deltaV = None, direction = None,
               reason = Some ''below threshold'', omegaDriftDeg = None \<rparr>)"

definition calculateSRPPerturbation :: "real \<Rightarrow> real \<Rightarrow> real \<Rightarrow> real \<Rightarrow> perturbation" where
  "calculateSRPPerturbation sma ecc altitudeKm mass =
     (if altitudeKm < 20000 then
        \<lparr> needsCorrection = False, deltaV = None, direction = None,
          reason = Some ''negligible at this altitude'', omegaDriftDeg = None \<rparr>
      else
        let estimatedArea = 10 + (altitudeKm / 5000) * 8;
            areaToMass = estimatedArea / mass;
            srpAccel = 456 / 10 ^ 8 * (13 / 10) * areaToMass;
            n = sqrt (mu_earth / sma ^ 3);
            periodSeconds = 2 * pi / n;
            orbitsPerYear = (36525 / 100 * 86400) / periodSeconds;
            dvPerOrbit = srpAccel * periodSeconds * (3 / 10);
            dvPerYear = dvPerOrbit * orbitsPerYear
        in if dvPerYear > 5 \<and> dvPerOrbit > 1 / 10 then
             \<lparr> needsCorrection = True, deltaV = Some (min dvPerOrbit 2),
               direction = Some \<lparr> xc = - 1, yc = 0 \<rparr>,
               reason = Some (toFixed dvPerYear 1 @ '' m/s/yr (A/m='' @ toFixed areaToMass 2 @ '')''),
               omegaDriftDeg = None \<rparr>
           else
             \<lparr> needsCorrection = False, deltaV = None, direction = None,
               reason = Some ''below threshold'', omegaDriftDeg = None \<rparr>)"

section \<open>Text and angles\<close>

text \<open>
  \<^verbatim>\<open>Math.atan2(y, x)\<close>, with values in \<open>(-pi, pi]\<close> (signed zeros are outside the model).
\<close>

definition atan2 :: "real \<Rightarrow> real \<Rightarrow> real" where
  "atan2 b a =
     (if a > 0 then arctan (b / a)
      else if a < 0 then (if b \<ge> 0 then arctan (b / a) + pi else arctan (b / a) - pi)
      else if b > 0 then pi / 2
      else if b < 0 then - (pi / 2)
      else 0)"

text \<open>
  \<^verbatim>\<open>v.toExponential(f)\<close>: one digit, a point, \<open>f\<close> digits, then the decimal exponent
  with its sign. It occurs in log messages only.
\<close>

definition toExponential :: "real \<Rightarrow> nat \<Rightarrow> string" where
  "toExponential v f =
     (let e0 = (if v = 0 then 0 else \<lfloor>log 10 \<bar>v\<bar>\<rfloor>);
          n0 = nat \<lfloor>\<bar>v\<bar> / (10 powi (e0 - int f)) + 1 / 2\<rfloor>;
          (e, n) = (if n0 = 10 ^ (Suc f) then (e0 + 1, 10 ^ f) else (e0, n0));
          m = replicate (Suc f - length (digits_of n)) (CHR ''0'') @ digits_of n
      in (if v < 0 then ''-'' else []) @
         (if f = 0 then m else take 1 m @ ''.'' @ drop 1 m) @
         ''e'' @ (if e < 0 then ''-'' else ''+'') @ digits_of (nat \<bar>e\<bar>))"

text \<open>
  The messages and burn reasons of the source contain emoji and Greek letters; they are
  written here in ASCII (for instance \<^verbatim>\<open>[AUTO]\<close> for the robot face), one spelling per
  source text, so that equality of two reasons is equality of the source strings.
\<close>

section \<open>Constraints and the burn queue\<close>

text \<open>
  The \<^verbatim>\<open>constraints\<close> object of the driver. A field the driver may leave out is an
  option. \<^verbatim>\<open>a || d\<close> on a number that may be missing is \<open>js_or\<close>: the default is taken
  when the field is missing or is 0. \<^verbatim>\<open>constraints.eccentricity?.warning\<close> is
  \<open>map_option warning (eccentricity c)\<close>.
\<close>

record thresholds =
  warning :: real
  violation :: real
  critical :: real

type_synonym inventory = "string \<Rightarrow> real option"

record constraints =
  targetAlt :: real
  targetEccentricity :: "real option"
  perigeeAlt :: "real option"
  targetVelocity :: real
  eccentricity :: "thresholds option"
  altitude_km :: "thresholds option"
  velocity_ms :: "thresholds option"
  propellantRemaining :: "inventory option"

definition js_or :: "real option \<Rightarrow> real \<Rightarrow> real" where
  "js_or v d = (case v of None \<Rightarrow> d | Some a \<Rightarrow> if a = 0 then d else a)"

text \<open>\<^verbatim>\<open>constraints.targetEccentricity && constraints.targetEccentricity > 0.5\<close>, as a
  condition.\<close>

definition isMolniya :: "constraints \<Rightarrow> bool" where
  "isMolniya c = (case targetEccentricity c of None \<Rightarrow> False | Some e \<Rightarrow> e \<noteq> 0 \<and> e > 1 / 2)"

record burn =
  burn_dv :: real
  burn_dir :: vec
  burn_reason :: string
  burn_thruster :: string

text \<open>One call of \<^verbatim>\<open>fireThrusterCallback\<close>: the delta-v, the thruster name and the
  direction, where the variant passes them.\<close>

record thruster_call =
  call_dv :: real
  call_thruster :: "string option"
  call_dir :: "vec option"

text \<open>
  The fields all variants share (\<open>controller\<close>) and those of the queue-based variants
  (\<open>autopilot\<close>). A log entry is its message; the wall-clock time stamp
  \<^verbatim>\<open>new Date().toLocaleTimeString()\<close> is left out.
\<close>

record controller =
  enabled :: bool
  rescueMode :: bool
  log_entries :: "string list"

record autopilot = controller +
  lastBurnTime :: real
  burnQueue :: "burn list"

text \<open>\<^verbatim>\<open>logMessage(message)\<close>: \<^verbatim>\<open>unshift\<close>, then \<^verbatim>\<open>pop\<close> when more than 50 entries.\<close>

definition logMessage :: "string \<Rightarrow> 'a controller_scheme \<Rightarrow> 'a controller_scheme" where
  "logMessage message ap =
     (let l = message # log_entries ap
      in ap\<lparr>log_entries := (if length l > 50 then butlast l else l)\<rparr>)"

text \<open>The unit vectors every queue-based variant computes from the position.\<close>

definition radialUnit :: "orbit_state \<Rightarrow> vec" where
  "radialUnit s = \<lparr> xc = xc (pos s) / radius s, yc = yc (pos s) / radius s \<rparr>"

definition progradeUnit :: "orbit_state \<Rightarrow> vec" where
  "progradeUnit s = \<lparr> xc = - yc (radialUnit s), yc = xc (radialUnit s) \<rparr>"

definition retrogradeUnit :: "orbit_state \<Rightarrow> vec" where
  "retrogradeUnit s = \<lparr> xc = - xc (progradeUnit s), yc = - yc (progradeUnit s) \<rparr>"

text \<open>\<^verbatim>\<open>altitude = (r - earthRadius) / 1000\<close>, in km.\<close>

definition altitudeKm_of :: "orbit_state \<Rightarrow> real" where
  "altitudeKm_of s = (radius s - earthRadius) / 1000"

section \<open>The final controller variant\<close>

text \<open>
  The class headed ``FINAL FIXED NASA-GRADE 4-DOF AUTOPILOT''. Its state adds the
  reference angle \<^verbatim>\<open>argumentOfPerigee\<close>.
\<close>

record final_autopilot = autopilot +
  argumentOfPerigee :: real

definition final_init :: final_autopilot where
  "final_init = \<lparr> enabled = False, rescueMode = False, log_entries = [], lastBurnTime = 0,
                  burnQueue = [], argumentOfPerigee = 0 \<rparr>"

definition final_setEnabled :: "bool \<Rightarrow> final_autopilot \<Rightarrow> final_autopilot" where
  "final_setEnabled v ap =
     (if v then logMessage ''[AUTO] PERFECT FIXED 4-DOF AUTOPILOT ENGAGED - All Issues Resolved''
                 (ap\<lparr>enabled := v\<rparr>)
      else logMessage ''[AUTO] Autopilot DISENGAGED'' (ap\<lparr>enabled := v\<rparr>))"

text \<open>\<^verbatim>\<open>radians % (2 * Math.PI)\<close> is the remainder with the sign of the dividend.\<close>

definition js_rem :: "real \<Rightarrow> real \<Rightarrow> real" where
  "js_rem a m = a - m * of_int (if a / m \<ge> 0 then \<lfloor>a / m\<rfloor> else \<lceil>a / m\<rceil>)"

definition final_setArgumentOfPerigee :: "real \<Rightarrow> final_autopilot \<Rightarrow> final_autopilot" where
  "final_setArgumentOfPerigee radians ap =
     logMessage (''Perigee set to '' @ toFixed (radians * 180 / pi) 1 @ '' deg'')
       (ap\<lparr>argumentOfPerigee := js_rem radians (2 * pi)\<rparr>)"

text \<open>\<^verbatim>\<open>queueBurn(dv, directionUnitVec, reason, thruster)\<close> of the final variant.\<close>

definition final_queueBurn ::
  "real \<Rightarrow> vec \<Rightarrow> string \<Rightarrow> string \<Rightarrow> 'a autopilot_scheme \<Rightarrow> 'a autopilot_scheme" where
  "final_queueBurn d u rsn thr ap =
     (if d > 2 / 10 then
        (let isDuplicate = list_ex (\<lambda>b. burn_reason b = rsn \<and> \<bar>burn_dv b - d\<bar> < 1 / 10) (burnQueue ap)
         in if \<not> isDuplicate then
              ap\<lparr>burnQueue := burnQueue ap @
                    [\<lparr> burn_dv = d, burn_dir = u, burn_reason = rsn, burn_thruster = thr \<rparr>]\<rparr>
            else ap)
      else ap)"

text \<open>The true anomaly and the burn windows, as \<^verbatim>\<open>update\<close> computes them.\<close>

definition final_trueAnomaly :: "real \<Rightarrow> orbit_state \<Rightarrow> real" where
  "final_trueAnomaly omega s =
     (let ta = atan2 (yc (pos s)) (xc (pos s)) - omega
      in if ta < 0 then ta + 2 * pi else ta)"

definition nearPerigee :: "real \<Rightarrow> bool" where
  "nearPerigee ta = (\<bar>ta\<bar> < 15 / 100 \<or> \<bar>ta - 2 * pi\<bar> < 15 / 100)"

definition nearApogee :: "real \<Rightarrow> bool" where
  "nearApogee ta = (\<bar>ta - pi\<bar> < 15 / 100)"

text \<open>
  \<^verbatim>\<open>update\<close> is one long method; its blocks are the definitions below, in the order of
  the source, each a function on the controller state. First the block headed
  ``UNIVERSAL DRAG COMPENSATION''.
\<close>

definition final_dragCompensation ::
  "orbit_state \<Rightarrow> real \<Rightarrow> 'a autopilot_scheme \<Rightarrow> 'a autopilot_scheme" where
  "final_dragCompensation s ta ap =
     (let altitude = altitudeKm_of s;
          sma = getSMA s;
          dragAccel = calculateDragAcceleration altitude
      in if dragAccel > 1 / 10 ^ 10 \<and> nearPerigee ta then
           (let period = 2 * pi * sqrt (sma ^ 3 / mu_earth);
                dragDvPerOrbit = dragAccel * period * (7 / 10)
            in if dragDvPerOrbit > 1 / 10 then
                 logMessage (''[EARTH] Drag: '' @ toExponential dragAccel 2 @ '' m/s2 -> '' @
                             toFixed dragDvPerOrbit 2 @ '' m/s makeup'')
                   (final_queueBurn dragDvPerOrbit (progradeUnit s)
                      (''Drag reboost +'' @ toFixed dragDvPerOrbit 2 @ '' m/s'')
                      (if altitude < 1000 then ''chemical'' else ''electric'') ap)
               else ap)
         else ap)"

text \<open>The block ``Eccentricity control first (root cause fix)'' of the circular regime.\<close>

definition final_eccControl ::
  "orbit_state \<Rightarrow> constraints \<Rightarrow> real \<Rightarrow> 'a autopilot_scheme \<Rightarrow> 'a autopilot_scheme" where
  "final_eccControl s c ta ap =
     (let ecc = getEccentricity s;
          eccThreshold = js_or (map_option warning (eccentricity c)) (1 / 1000)
      in if ecc > eccThreshold * (8 / 10) then
           (let burnSize = min (ecc * 2000) 12;
                flag = (\<lambda>a. if ecc > js_or (map_option violation (eccentricity c)) (5 / 1000)
                            then a\<lparr>rescueMode := True\<rparr> else a)
            in if nearApogee ta then
                 flag (final_queueBurn burnSize (retrogradeUnit s)
                         (''Ecc fix: retro at apogee (e='' @ toFixed ecc 4 @ '')'') ''electric'' ap)
               else if nearPerigee ta then
                 flag (final_queueBurn burnSize (progradeUnit s)
                         (''Ecc fix: pro at perigee (e='' @ toFixed ecc 4 @ '')'') ''electric'' ap)
               else ap)
         else ap\<lparr>rescueMode := False\<rparr>)"

text \<open>The block ``SMA control second (only if ecc is low)''.\<close>

definition final_smaControl ::
  "orbit_state \<Rightarrow> constraints \<Rightarrow> real \<Rightarrow> 'a autopilot_scheme \<Rightarrow> 'a autopilot_scheme" where
  "final_smaControl s c ta ap =
     (let ecc = getEccentricity s;
          sma = getSMA s;
          targetRadius = earthRadius + targetAlt c * 1000;
          eccThreshold = js_or (map_option warning (eccentricity c)) (1 / 1000)
      in if ecc < eccThreshold * (12 / 10) then
           (let smaErrorKm = (sma - targetRadius) / 1000;
                altThreshold = js_or (map_option warning (altitude_km c)) 5
            in if \<bar>smaErrorKm\<bar> > altThreshold * (3 / 10) \<and> (nearPerigee ta \<or> nearApogee ta) then
                 (let d = \<bar>smaErrorKm * (5 / 10)\<bar>;
                      u = (if smaErrorKm > 0 then progradeUnit s else retrogradeUnit s);
                      thr = (if d < 3 then ''electric'' else ''chemical'');
                      ap1 = final_queueBurn d u (''SMA fix: '' @ toFixed smaErrorKm 1 @ '' km'') thr ap
                  in if \<bar>smaErrorKm\<bar> > js_or (map_option violation (altitude_km c)) 15
                     then ap1\<lparr>rescueMode := True\<rparr> else ap1)
               else ap)
         else ap)"

text \<open>The block ``MOLNIYA / HEO''.\<close>

definition final_heoControl ::
  "orbit_state \<Rightarrow> constraints \<Rightarrow> real \<Rightarrow> 'a autopilot_scheme \<Rightarrow> 'a autopilot_scheme" where
  "final_heoControl s c ta ap =
     (let ecc = getEccentricity s;
          sma = getSMA s;
          targetEcc = js_or (targetEccentricity c) (72 / 100);
          rApogee = earthRadius + (if targetAlt c = 0 then 42000 else targetAlt c) * 1000;
          rPerigee = earthRadius + js_or (perigeeAlt c) 1000 * 1000;
          targetSMA = (rApogee + rPerigee) / 2
      in if nearPerigee ta then
           (let eccError = ecc - targetEcc;
                eccThreshold = js_or (map_option warning (eccentricity c)) (5 / 100);
                ap1 = (if \<bar>eccError\<bar> > eccThreshold * (2 / 10) then
                         (final_queueBurn \<bar>eccError * 250\<bar>
                            (if eccError > 0 then retrogradeUnit s else progradeUnit s)
                            (''HEO ecc fix '' @ toFixed eccError 3) ''chemical'' ap)
                           \<lparr>rescueMode := True\<rparr>
                       else ap);
                smaErrorKm = (sma - targetSMA) / 1000
            in if \<bar>smaErrorKm\<bar> > 100 then
                 final_queueBurn \<bar>smaErrorKm * (8 / 100)\<bar>
                   (if smaErrorKm > 0 then progradeUnit s else retrogradeUnit s)
                   (''HEO SMA fix '' @ toFixed smaErrorKm 0 @ '' km'') ''chemical'' ap1
               else ap1)
         else ap)"

text \<open>All the queueing of one tick: drag, then the regime's block.\<close>

definition final_plan ::
  "orbit_state \<Rightarrow> constraints \<Rightarrow> real \<Rightarrow> 'a autopilot_scheme \<Rightarrow> 'a autopilot_scheme" where
  "final_plan s c ta ap =
     (let ap1 = final_dragCompensation s ta ap
      in if \<not> isMolniya c then final_smaControl s c ta (final_eccControl s c ta ap1)
         else final_heoControl s c ta ap1)"

text \<open>The block ``Execute burns'': at most one queued burn per tick, and only when more
  than 120 s of mission time have passed since the last one. The result is the new state
  and the calls of \<^verbatim>\<open>fireThrusterCallback\<close> made.\<close>

definition final_execute ::
  "orbit_state \<Rightarrow> real \<Rightarrow> 'a autopilot_scheme \<Rightarrow> 'a autopilot_scheme \<times> thruster_call list" where
  "final_execute s missionTime ap =
     (case burnQueue ap of
        [] \<Rightarrow> (ap, [])
      | b # rest \<Rightarrow>
          if missionTime - lastBurnTime ap > 120 then
            (let ap1 = ap\<lparr>burnQueue := rest, lastBurnTime := missionTime\<rparr>;
                 h = hypot (xc (vel s)) (yc (vel s));
                 vMag = (if h = 0 then 1 else h);
                 vUnit = \<lparr> xc = xc (vel s) / vMag, yc = yc (vel s) / vMag \<rparr>;
                 dot = xc (burn_dir b) * xc vUnit + yc (burn_dir b) * yc vUnit;
                 dvToApply = burn_dv b * (if dot \<ge> 0 then 1 else - 1)
             in (logMessage ((if rescueMode ap1 then ''[ALARM] RESCUE'' else ''[AUTO] AUTO'') @ '': '' @
                             burn_reason b @ '' | '' @ toFixed (burn_dv b) 2 @ '' m/s ['' @
                             burn_thruster b @ '']'') ap1,
                 [\<lparr> call_dv = dvToApply, call_thruster = Some (burn_thruster b), call_dir = None \<rparr>]))
          else (ap, []))"

text \<open>\<^verbatim>\<open>update(state, constraints, currentMass, missionTime, fireThrusterCallback)\<close>. It
  returns \<^verbatim>\<open>null\<close> on every path, so the result here is the state after the call and the
  callback calls made.\<close>

definition final_update ::
  "orbit_state \<Rightarrow> constraints \<Rightarrow> real \<Rightarrow> real \<Rightarrow> final_autopilot \<Rightarrow>
     final_autopilot \<times> thruster_call list" where
  "final_update s c currentMass missionTime ap =
     (if \<not> enabled ap then (ap, [])
      else
        let ta = final_trueAnomaly (argumentOfPerigee ap) s
        in final_execute s missionTime (final_plan s c ta ap))"

section \<open>The 4-DOF controller variant\<close>

text \<open>
  The class headed ``PERFECT 4-DOF NASA-GRADE AUTOPILOT''. Its state is \<open>autopilot\<close>;
  it reads the reference angle from \<^verbatim>\<open>state.argumentOfPerigee\<close>, which is the argument
  \<open>omega\<close> of the functions below, and its \<^verbatim>\<open>update\<close> calls the four perturbation
  models. \<open>rnd\<close> is the number \<^verbatim>\<open>Math.random()\<close> returns to the third-body model in
  this tick.
\<close>

definition dof4_setEnabled :: "bool \<Rightarrow> autopilot \<Rightarrow> autopilot" where
  "dof4_setEnabled v ap =
     (if v then logMessage ''[AUTO] PERFECT 4-DOF AUTOPILOT ENGAGED - True Anomaly Control Active''
                 (ap\<lparr>enabled := v\<rparr>)
      else logMessage ''[AUTO] Autopilot DISENGAGED'' (ap\<lparr>enabled := v\<rparr>))"

definition dof4_queueBurn ::
  "real \<Rightarrow> vec \<Rightarrow> string \<Rightarrow> string \<Rightarrow> 'a autopilot_scheme \<Rightarrow> 'a autopilot_scheme" where
  "dof4_queueBurn d u rsn thr ap =
     (if d > 15 / 100 then
        (let isDuplicate = list_ex (\<lambda>b. burn_reason b = rsn \<and> \<bar>burn_dv b - d\<bar> < 1 / 10) (burnQueue ap)
         in if \<not> isDuplicate then
              ap\<lparr>burnQueue := burnQueue ap @
                    [\<lparr> burn_dv = d, burn_dir = u, burn_reason = rsn, burn_thruster = thr \<rparr>]\<rparr>
            else ap)
      else ap)"

definition dof4_trueAnomaly :: "real \<Rightarrow> orbit_state \<Rightarrow> real" where
  "dof4_trueAnomaly omega s =
     (let angleFromXAxis = atan2 (yc (pos s)) (xc (pos s));
          ta0 = angleFromXAxis - omega;
          ta1 = (if ta0 < 0 then ta0 + 2 * pi else ta0)
      in if ta1 > 2 * pi then ta1 - 2 * pi else ta1)"

definition dof4_nearPerigee :: "real \<Rightarrow> bool" where
  "dof4_nearPerigee ta = (ta < 25 / 100 \<or> ta > 2 * pi - 25 / 100)"

definition dof4_nearApogee :: "real \<Rightarrow> bool" where
  "dof4_nearApogee ta = (\<bar>ta - pi\<bar> < 25 / 100)"

text \<open>``UNIVERSAL DRAG COMPENSATION''.\<close>

definition dof4_dragCompensation ::
  "orbit_state \<Rightarrow> real \<Rightarrow> 'a autopilot_scheme \<Rightarrow> 'a autopilot_scheme" where
  "dof4_dragCompensation s ta ap =
     (let altitude = altitudeKm_of s;
          sma = getSMA s;
          dragAccel = calculateDragAcceleration_4dof altitude
      in if dragAccel > 1 / 10 ^ 9 \<and> dof4_nearPerigee ta then
           (let periodSeconds = 2 * pi * sqrt (sma ^ 3 / mu_earth);
                dragDecelPerOrbit = dragAccel * (65 / 100);
                dvDragMakeup = dragDecelPerOrbit * periodSeconds
            in if dvDragMakeup > 8 / 100 then
                 logMessage (''[EARTH] Drag: '' @ toExponential dragAccel 2 @ '' m/s2 -> '' @
                             toFixed dvDragMakeup 2 @ '' m/s makeup'')
                   (dof4_queueBurn dvDragMakeup (progradeUnit s)
                      (''Drag makeup +'' @ toFixed dvDragMakeup 2 @ '' m/s (alt='' @
                       toFixed altitude 0 @ ''km)'')
                      (if altitude < 800 then ''chemical'' else ''electric'') ap)
               else ap)
         else ap)"

text \<open>A burn whose delta-v or direction is \<^verbatim>\<open>undefined\<close> is never queued
  (\<^verbatim>\<open>undefined > 0.15\<close> is false); the models set both whenever
  \<^verbatim>\<open>needsCorrection\<close> is true.\<close>

definition dof4_queuePerturbation ::
  "perturbation \<Rightarrow> string \<Rightarrow> string \<Rightarrow> 'a autopilot_scheme \<Rightarrow> 'a autopilot_scheme" where
  "dof4_queuePerturbation p rsn thr ap =
     (case (deltaV p, direction p) of
        (Some d, Some u) \<Rightarrow> dof4_queueBurn d u rsn thr ap
      | _ \<Rightarrow> ap)"

text \<open>``J2 OBLATENESS PERTURBATION COMPENSATION''.\<close>

definition dof4_j2Compensation ::
  "orbit_state \<Rightarrow> real \<Rightarrow> 'a autopilot_scheme \<Rightarrow> 'a autopilot_scheme" where
  "dof4_j2Compensation s ta ap =
     (let j2 = calculateJ2Perturbation (getSMA s) (getEccentricity s) (altitudeKm_of s);
          drift = (case omegaDriftDeg j2 of Some v \<Rightarrow> v | None \<Rightarrow> 0)
      in if needsCorrection j2 \<and> dof4_nearPerigee ta then
           logMessage (''[GLOBE] J2: Argument of perigee drifting '' @ toFixed drift 3 @ '' deg/day'')
             (dof4_queuePerturbation j2
                (''J2 correction: omega drift '' @ toFixed drift 2 @ '' deg/day'') ''electric'' ap)
         else ap)"

text \<open>``THIRD-BODY GRAVITY COMPENSATION''.\<close>

definition dof4_thirdBodyCompensation ::
  "orbit_state \<Rightarrow> real \<Rightarrow> real \<Rightarrow> real \<Rightarrow> 'a autopilot_scheme \<Rightarrow> 'a autopilot_scheme" where
  "dof4_thirdBodyCompensation s ta missionTime rnd ap =
     (let altitude = altitudeKm_of s;
          tb = calculateThirdBodyPerturbation (getSMA s) (getEccentricity s) altitude missionTime rnd;
          rsn = (case reason tb of Some t \<Rightarrow> t | None \<Rightarrow> ''undefined'')
      in if needsCorrection tb \<and> (dof4_nearPerigee ta \<or> dof4_nearApogee ta) then
           logMessage (''[MOON][SUN] Third-body: '' @ rsn)
             (dof4_queuePerturbation tb (''Third-body correction: '' @ rsn)
                (if altitude > 20000 then ''electric'' else ''chemical'') ap)
         else ap)"

text \<open>``SOLAR RADIATION PRESSURE COMPENSATION''.\<close>

definition dof4_srpCompensation ::
  "orbit_state \<Rightarrow> real \<Rightarrow> real \<Rightarrow> 'a autopilot_scheme \<Rightarrow> 'a autopilot_scheme" where
  "dof4_srpCompensation s ta currentMass ap =
     (let srp = calculateSRPPerturbation (getSMA s) (getEccentricity s) (altitudeKm_of s) currentMass;
          rsn = (case reason srp of Some t \<Rightarrow> t | None \<Rightarrow> ''undefined'')
      in if needsCorrection srp \<and> dof4_nearPerigee ta then
           logMessage (''[SUN] SRP: '' @ rsn @ '' (partial 2D model)'')
             (dof4_queuePerturbation srp (''SRP correction: '' @ rsn @ '' ([WARN] 2D approx)'')
                ''electric'' ap)
         else ap)"

text \<open>``CIRCULAR ORBITS'': eccentricity control, then semi-major axis control.\<close>

definition dof4_eccControl ::
  "orbit_state \<Rightarrow> constraints \<Rightarrow> real \<Rightarrow> 'a autopilot_scheme \<Rightarrow> 'a autopilot_scheme" where
  "dof4_eccControl s c ta ap =
     (let ecc = getEccentricity s;
          altitude = altitudeKm_of s;
          eccThreshold = js_or (map_option warning (eccentricity c)) (1 / 1000)
      in if ecc > eccThreshold then
           (let burnSize = min (ecc * 1800) 15;
                flag = (\<lambda>a. if ecc > js_or (map_option violation (eccentricity c)) (5 / 1000)
                            then a\<lparr>rescueMode := True\<rparr> else a);
                tail = ''(e='' @ toFixed ecc 4 @ '', nu='' @ toFixed (ta * 180 / pi) 1 @ '' deg)''
            in if dof4_nearApogee ta \<and> altitude > targetAlt c + 10 then
                 flag (dof4_queueBurn burnSize (retrogradeUnit s)
                         (''Circularize: retro at apogee '' @ tail) ''electric'' ap)
               else if dof4_nearPerigee ta \<and> altitude < targetAlt c - 10 then
                 flag (dof4_queueBurn burnSize (progradeUnit s)
                         (''Circularize: prograde at perigee '' @ tail) ''electric'' ap)
               else ap)
         else ap\<lparr>rescueMode := False\<rparr>)"

definition dof4_smaControl ::
  "orbit_state \<Rightarrow> constraints \<Rightarrow> real \<Rightarrow> 'a autopilot_scheme \<Rightarrow> 'a autopilot_scheme" where
  "dof4_smaControl s c ta ap =
     (let sma = getSMA s;
          targetRadius = earthRadius + targetAlt c * 1000;
          smaErrorKm = (sma - targetRadius) / 1000;
          altThreshold = js_or (map_option warning (altitude_km c)) 5
      in if \<bar>smaErrorKm\<bar> > altThreshold then
           (let d = \<bar>smaErrorKm\<bar> * (53 / 100);
                u = (if smaErrorKm > 0 then retrogradeUnit s else progradeUnit s);
                thr = (if d < 5 then ''electric'' else ''chemical'')
            in if dof4_nearPerigee ta \<or> dof4_nearApogee ta then
                 (let ap1 = dof4_queueBurn d u
                              (''SMA adjust '' @ (if smaErrorKm > 0 then ''-'' else ''+'') @
                               toFixed \<bar>smaErrorKm\<bar> 1 @ '' km'') thr ap
                  in if \<bar>smaErrorKm\<bar> > js_or (map_option violation (altitude_km c)) 15
                     then ap1\<lparr>rescueMode := True\<rparr> else ap1)
               else ap)
         else ap)"

text \<open>``MOLNIYA FROZEN ORBIT MAINTENANCE''.\<close>

definition dof4_molniyaControl ::
  "orbit_state \<Rightarrow> constraints \<Rightarrow> real \<Rightarrow> 'a autopilot_scheme \<Rightarrow> 'a autopilot_scheme" where
  "dof4_molniyaControl s c ta ap =
     (let ecc = getEccentricity s;
          sma = getSMA s;
          targetEcc = js_or (targetEccentricity c) (72 / 100);
          rApogee = earthRadius + (if targetAlt c = 0 then 42000 else targetAlt c) * 1000;
          rPerigee = earthRadius + js_or (perigeeAlt c) 1000 * 1000;
          targetSMA = (rApogee + rPerigee) / 2
      in if dof4_nearPerigee ta then
           (let eccError = ecc - targetEcc;
                eccThreshold = js_or (map_option warning (eccentricity c)) (5 / 100);
                ap1 = (if \<bar>eccError\<bar> > eccThreshold then
                         (dof4_queueBurn (\<bar>eccError\<bar> * 220)
                            (if eccError > 0 then retrogradeUnit s else progradeUnit s)
                            (''Molniya ecc '' @ (if eccError > 0 then ''+'' else '''') @
                             toFixed eccError 3 @ '' (nu='' @ toFixed (ta * 180 / pi) 1 @ '' deg)'')
                            ''chemical'' ap)
                           \<lparr>rescueMode := True\<rparr>
                       else ap);
                smaErrorKm = (sma - targetSMA) / 1000
            in if \<bar>smaErrorKm\<bar> > 150 then
                 dof4_queueBurn (\<bar>smaErrorKm\<bar> * (75 / 1000))
                   (if smaErrorKm > 0 then retrogradeUnit s else progradeUnit s)
                   (''Molniya SMA '' @ (if smaErrorKm > 0 then ''-'' else ''+'') @
                    toFixed \<bar>smaErrorKm\<bar> 0 @ '' km'') ''chemical'' ap1
               else ap1)
         else ap)"

definition dof4_plan ::
  "orbit_state \<Rightarrow> constraints \<Rightarrow> real \<Rightarrow> real \<Rightarrow> real \<Rightarrow> real \<Rightarrow>
     'a autopilot_scheme \<Rightarrow> 'a autopilot_scheme" where
  "dof4_plan s c ta currentMass missionTime rnd ap =
     (let ap1 = dof4_dragCompensation s ta ap;
          ap2 = dof4_j2Compensation s ta ap1;
          ap3 = dof4_thirdBodyCompensation s ta missionTime rnd ap2;
          ap4 = dof4_srpCompensation s ta currentMass ap3
      in if \<not> isMolniya c then dof4_smaControl s c ta (dof4_eccControl s c ta ap4)
         else dof4_molniyaControl s c ta ap4)"

text \<open>``EXECUTE BURNS WITH ADAPTIVE TIMING''.\<close>

definition dof4_execute ::
  "orbit_state \<Rightarrow> constraints \<Rightarrow> real \<Rightarrow> 'a autopilot_scheme \<Rightarrow>
     'a autopilot_scheme \<times> thruster_call list" where
  "dof4_execute s c missionTime ap =
     (let minBurnInterval = (if isMolniya c then 120 else 60);
          adjustedInterval = (if altitudeKm_of s > 30000 then minBurnInterval * (5 / 10)
                              else minBurnInterval)
      in case burnQueue ap of
           [] \<Rightarrow> (ap, [])
         | b # rest \<Rightarrow>
             if missionTime - lastBurnTime ap > adjustedInterval then
               (let ap1 = ap\<lparr>burnQueue := rest, lastBurnTime := missionTime\<rparr>;
                    h = hypot (xc (vel s)) (yc (vel s));
                    vMag = (if h = 0 then 1 else h);
                    vUnit = \<lparr> xc = xc (vel s) / vMag, yc = yc (vel s) / vMag \<rparr>;
                    dot = xc (burn_dir b) * xc vUnit + yc (burn_dir b) * yc vUnit;
                    dvToApply = burn_dv b * (if dot \<ge> 0 then 1 else - 1)
                in (logMessage ((if rescueMode ap1 then ''[ALARM] RESCUE'' else ''[AUTO] AUTO'') @
                                '': '' @ burn_reason b @ '' | '' @ toFixed (burn_dv b) 2 @
                                '' m/s ['' @ burn_thruster b @ '']'') ap1,
                    [\<lparr> call_dv = dvToApply, call_thruster = Some (burn_thruster b),
                       call_dir = None \<rparr>]))
             else (ap, []))"

definition dof4_update ::
  "orbit_state \<Rightarrow> real \<Rightarrow> constraints \<Rightarrow> real \<Rightarrow> real \<Rightarrow> real \<Rightarrow> autopilot \<Rightarrow>
     autopilot \<times> thruster_call list" where
  "dof4_update s omega c currentMass missionTime rnd ap =
     (if \<not> enabled ap then (ap, [])
      else
        let ta = dof4_trueAnomaly omega s
        in dof4_execute s c missionTime (dof4_plan s c ta currentMass missionTime rnd ap))"

section \<open>The PID controller variant\<close>

text \<open>
  The class headed ``AI AUTOPILOT SYSTEM''. It has no burn queue: a correction calls
  \<^verbatim>\<open>fireThrusterCallback(deltaV)\<close> at once. \<^verbatim>\<open>update\<close> returns \<^verbatim>\<open>null\<close> or a burn
  description; reading \<^verbatim>\<open>constraints.altitude_km.violation\<close> or
  \<^verbatim>\<open>constraints.velocity_ms.violation\<close> when the driver left the field out raises a
  TypeError, which is the outcome \<open>Threw\<close> (the state changes made before it remain).
  A log text that embeds a number with JavaScript's default conversion is shortened to its
  fixed part.
\<close>

record pid =
  kP :: real
  kI :: real
  kD :: real
  integral :: real
  lastError :: real

record pid_autopilot = controller +
  isHEO :: bool
  altitudePID :: pid
  velocityPID :: pid
  lastCorrectionTime :: real
  correctionInterval :: real
  lastHEOLogTime :: "real option"

datatype outcome = Null | BurnInfo real string bool | Threw

definition pid_init :: pid_autopilot where
  "pid_init = \<lparr> enabled = False, rescueMode = False, log_entries = [], isHEO = False,
      altitudePID = \<lparr> kP = 2 / 1000, kI = 1 / 10000, kD = 1 / 100, integral = 0, lastError = 0 \<rparr>,
      velocityPID = \<lparr> kP = 1 / 1000, kI = 5 / 100000, kD = 5 / 1000, integral = 0, lastError = 0 \<rparr>,
      lastCorrectionTime = 0, correctionInterval = 1, lastHEOLogTime = None \<rparr>"

definition resetPID :: "pid_autopilot \<Rightarrow> pid_autopilot" where
  "resetPID ap =
     ap\<lparr>altitudePID := (altitudePID ap)\<lparr>integral := 0, lastError := 0\<rparr>,
        velocityPID := (velocityPID ap)\<lparr>integral := 0, lastError := 0\<rparr>\<rparr>"

definition pid_setEnabled :: "bool \<Rightarrow> pid_autopilot \<Rightarrow> pid_autopilot" where
  "pid_setEnabled v ap =
     (if v then logMessage ''[AUTO] Autopilot ENGAGED'' (resetPID (ap\<lparr>enabled := v\<rparr>))
      else logMessage ''[AUTO] Autopilot DISENGAGED'' (ap\<lparr>enabled := v\<rparr>))"

text \<open>\<^verbatim>\<open>G * earthMass\<close> with \<^verbatim>\<open>G = 6.67430e-11\<close> and \<^verbatim>\<open>earthMass = 5.972e24\<close>.\<close>

definition pid_GM :: real where
  "pid_GM = 398589196000000"

definition pid_call :: "real \<Rightarrow> thruster_call" where
  "pid_call d = \<lparr> call_dv = d, call_thruster = None, call_dir = None \<rparr>"

text \<open>The severity factor both PID methods compute from the error and the thresholds.\<close>

definition pid_urgency :: "real \<Rightarrow> thresholds \<Rightarrow> real" where
  "pid_urgency err th =
     (if \<bar>err\<bar> > critical th then 3
      else if \<bar>err\<bar> > violation th then 2
      else if \<bar>err\<bar> > warning th then 15 / 10
      else 1)"

text \<open>
  One PID step, the same text in \<^verbatim>\<open>calculateAltitudeCorrection\<close> and
  \<^verbatim>\<open>calculateVelocityCorrection\<close>: \<open>pid_advance\<close> is the new controller record (the
  integral clamped to \<open>[-100, 100]\<close>) and \<open>pid_correction\<close> the PID sum before the
  severity factor. A missing \<^verbatim>\<open>thresholds\<close> object raises the TypeError after the
  record has been updated.
\<close>

definition pid_advance :: "pid \<Rightarrow> real \<Rightarrow> pid" where
  "pid_advance q err = q\<lparr>integral := max (- 100) (min 100 (integral q + err)), lastError := err\<rparr>"

definition pid_correction :: "pid \<Rightarrow> real \<Rightarrow> real" where
  "pid_correction q err =
     kP q * err + kI q * integral (pid_advance q err) + kD q * (err - lastError q)"

definition calculateAltitudeCorrection ::
  "real \<Rightarrow> real \<Rightarrow> thresholds \<Rightarrow> pid_autopilot \<Rightarrow> pid_autopilot \<times> real" where
  "calculateAltitudeCorrection currentAlt tgt th ap =
     (let err = tgt - currentAlt
      in (ap\<lparr>altitudePID := pid_advance (altitudePID ap) err\<rparr>,
          pid_correction (altitudePID ap) err * pid_urgency err th))"

definition calculateVelocityCorrection ::
  "real \<Rightarrow> real \<Rightarrow> thresholds option \<Rightarrow> pid_autopilot \<Rightarrow> pid_autopilot \<times> real option" where
  "calculateVelocityCorrection currentVel tgt th ap =
     (let err = tgt - currentVel
      in (ap\<lparr>velocityPID := pid_advance (velocityPID ap) err\<rparr>,
          map_option (\<lambda>t. pid_correction (velocityPID ap) err * pid_urgency err t) th))"

definition applyCorrections ::
  "real \<Rightarrow> real \<Rightarrow> pid_autopilot \<Rightarrow> pid_autopilot \<times> thruster_call list \<times> outcome" where
  "applyCorrections altCorrection velCorrection ap =
     (let (thrusterType, d) =
            (if \<bar>velCorrection\<bar> > \<bar>altCorrection\<bar> * 2 then
               (Some ''velocity'', sgn velCorrection * min (\<bar>velCorrection\<bar> * 20) 5)
             else if \<bar>altCorrection\<bar> > 1 / 10 then
               (Some ''altitude'', sgn altCorrection * min (\<bar>altCorrection\<bar> * 10) 3)
             else (None, 0))
      in case thrusterType of
           None \<Rightarrow> (ap, [], Null)
         | Some ty \<Rightarrow>
             if \<bar>d\<bar> > 1 / 2 then
               (logMessage ((if rescueMode ap then ''[ALARM] RESCUE'' else ''[AUTO] AUTO'') @ '': '' @
                            (if d > 0 then ''+'' else '''') @ toFixed d 1 @ '' m/s ('' @ ty @ '')'') ap,
                [pid_call d], BurnInfo d ty (rescueMode ap))
             else (ap, [], Null))"

text \<open>The elements as \<^verbatim>\<open>update\<close> of this variant computes them in line (no test of the
  sign of the energy).\<close>

definition pid_energy :: "orbit_state \<Rightarrow> real" where
  "pid_energy s =
     (let vMag = hypot (xc (vel s)) (yc (vel s))
      in (vMag * vMag) / 2 - pid_GM / radius s)"

definition pid_semiMajorAxis :: "orbit_state \<Rightarrow> real" where
  "pid_semiMajorAxis s = - pid_GM / (2 * pid_energy s)"

definition pid_eccentricity :: "orbit_state \<Rightarrow> real" where
  "pid_eccentricity s =
     (let h = xc (pos s) * yc (vel s) - yc (pos s) * xc (vel s);
          p = (h * h) / pid_GM
      in sqrt (max 0 (1 - p / pid_semiMajorAxis s)))"

definition correctEccentricity ::
  "orbit_state \<Rightarrow> real \<Rightarrow> constraints \<Rightarrow> pid_autopilot \<Rightarrow>
     pid_autopilot \<times> thruster_call list \<times> outcome" where
  "correctEccentricity s ecc c ap =
     (if ecc < 0 then (ap, [], Null)
      else
        let r = radius s;
            altitude = (r - earthRadius) / 1000;
            aboveTarget = altitude > targetAlt c;
            belowTarget = altitude < targetAlt c;
            semiMajorAxis = pid_semiMajorAxis s
        in if semiMajorAxis \<le> 0 then (ap, [], Null)
           else
             let isNearApogee = r > semiMajorAxis;
                 isNearPerigee = r < semiMajorAxis;
                 viol = (case eccentricity c of None \<Rightarrow> 5 / 1000 | Some th \<Rightarrow> violation th);
                 urgency = (if ecc > viol then 2 else 1);
                 baseBurn = min (ecc * 500) 3 * urgency;
                 choice =
                   (if isNearApogee \<and> aboveTarget then
                      Some (- baseBurn, ''Circularizing (retrograde at apogee -> raise perigee)'')
                    else if isNearPerigee \<and> belowTarget then
                      Some (baseBurn, ''Circularizing (prograde at perigee -> raise apogee)'')
                    else if isNearApogee then
                      Some (- baseBurn * (5 / 10), ''Circularizing (gentle retrograde at apogee)'')
                    else if isNearPerigee then
                      Some (baseBurn * (5 / 10), ''Circularizing (gentle prograde at perigee)'')
                    else None)
             in case choice of
                  None \<Rightarrow> (ap, [], Null)
                | Some (d, correctionType) \<Rightarrow>
                    let ap1 = logMessage (''[AUTO] ECC: '' @ correctionType @ '' (e='' @
                                          toFixed ecc 4 @ '')'') ap
                    in if \<bar>d\<bar> > 3 / 10 then
                         (ap1, [pid_call d], BurnInfo d ''eccentricity'' (rescueMode ap1))
                       else (ap1, [], Null))"

text \<open>\<^verbatim>\<open>updateHEO\<close>; \<open>nowMs\<close> is \<^verbatim>\<open>Date.now()\<close>. \<^verbatim>\<open>!constraints.targetAlt\<close> and its
  like are true for a missing field and for 0.\<close>

definition updateHEO ::
  "orbit_state \<Rightarrow> constraints \<Rightarrow> real \<Rightarrow> real \<Rightarrow> real \<Rightarrow> real \<Rightarrow> pid_autopilot \<Rightarrow>
     pid_autopilot \<times> thruster_call list \<times> outcome" where
  "updateHEO s c altitude vMag ecc nowMs ap =
     (if js_or (perigeeAlt c) 0 = 0 \<or> targetAlt c = 0 \<or> js_or (targetEccentricity c) 0 = 0 then
        (logMessage ''[WARN] HEO AUTO: Missing orbit parameters, standing by'' ap, [], Null)
      else
        let apogeeAlt = targetAlt c;
            perigee = js_or (perigeeAlt c) 0;
            targetEcc = js_or (targetEccentricity c) 0
        in if ecc < 0 \<or> ecc \<ge> 1 then
             ((logMessage ''[WARN] HEO AUTO: Invalid orbit, rescue needed'' ap)\<lparr>rescueMode := True\<rparr>,
              [pid_call 2], BurnInfo 2 ''emergency'' True)
           else
             let criticalMargin = js_or (map_option critical (altitude_km c)) 8000;
                 tooLow = altitude < perigee - criticalMargin;
                 tooHigh = altitude > apogeeAlt + criticalMargin;
                 ap1 = (if tooLow \<or> tooHigh then
                          logMessage (''[ALARM] HEO RESCUE: Altitude '' @ toFixed altitude 0 @
                                      ''km outside range'') (ap\<lparr>rescueMode := True\<rparr>)
                        else ap);
                 d1 = (if tooLow then min 5 (max (1 / 2) ((perigee - altitude) * (5 / 100)))
                       else - min 5 (max (1 / 2) ((altitude - apogeeAlt) * (5 / 100))))
             in if (tooLow \<or> tooHigh) \<and> \<bar>d1\<bar> > 3 / 10 then
                  (ap1, [pid_call d1], BurnInfo d1 ''altitude'' True)
                else
                  let eccError = \<bar>ecc - targetEcc\<bar>;
                      eccThreshold = js_or (map_option warning (eccentricity c)) (5 / 100);
                      currentR = radius s;
                      targetApogeeR = earthRadius + apogeeAlt * 1000;
                      targetPerigeeR = earthRadius + perigee * 1000;
                      midPoint = (targetApogeeR + targetPerigeeR) / 2;
                      isNearApogee = currentR > midPoint;
                      isNearPerigee = currentR < midPoint;
                      ap2 = (if eccError > eccThreshold then
                               logMessage (''[ALARM] HEO RESCUE: Eccentricity '' @ toFixed ecc 3 @
                                           '' drifting from '' @ toFixed targetEcc 2)
                                 (ap1\<lparr>rescueMode := True\<rparr>)
                             else ap1);
                      choice =
                        (if ecc < targetEcc - eccThreshold then
                           (if isNearApogee then
                              Some (- (15 / 10), ''[AUTO] HEO: Lowering perigee (retrograde at apogee)'')
                            else if isNearPerigee then
                              Some (15 / 10, ''[AUTO] HEO: Raising apogee (prograde at perigee)'')
                            else None)
                         else if ecc > targetEcc + eccThreshold then
                           (if isNearApogee then
                              Some (15 / 10, ''[AUTO] HEO: Raising perigee (prograde at apogee)'')
                            else if isNearPerigee then
                              Some (- (15 / 10), ''[AUTO] HEO: Lowering apogee (retrograde at perigee)'')
                            else None)
                         else None)
                  in case (if eccError > eccThreshold then choice else None) of
                       Some (d, msg) \<Rightarrow>
                         (logMessage msg ap2, [pid_call d], BurnInfo d ''eccentricity'' True)
                     | None \<Rightarrow>
                         let ap3 = ap2\<lparr>rescueMode := False\<rparr>;
                             due = (case lastHEOLogTime ap3 of
                                      None \<Rightarrow> True
                                    | Some t \<Rightarrow> t = 0 \<or> nowMs - t > 5000)
                         in if due then
                              ((logMessage (''[AUTO] HEO AUTO: Orbit stable (e='' @ toFixed ecc 3 @
                                            '', alt='' @ toFixed altitude 0 @ ''km)'') ap3)
                                 \<lparr>lastHEOLogTime := Some nowMs\<rparr>, [], Null)
                            else (ap3, [], Null))"

text \<open>\<^verbatim>\<open>update\<close> of the PID variant.\<close>

definition pid_update ::
  "orbit_state \<Rightarrow> constraints \<Rightarrow> real \<Rightarrow> real \<Rightarrow> real \<Rightarrow> pid_autopilot \<Rightarrow>
     pid_autopilot \<times> thruster_call list \<times> outcome" where
  "pid_update s c currentMass missionTime nowMs ap =
     (if \<not> enabled ap then (ap, [], Null)
      else if missionTime - lastCorrectionTime ap < correctionInterval ap then (ap, [], Null)
      else
        let ap0 = ap\<lparr>lastCorrectionTime := missionTime\<rparr>;
            altitude = (radius s - earthRadius) / 1000;
            vMag = hypot (xc (vel s)) (yc (vel s));
            ecc = pid_eccentricity s;
            ap1 = ap0\<lparr>isHEO := isMolniya c\<rparr>
        in if isHEO ap1 then updateHEO s c altitude vMag ecc nowMs ap1
           else
             let eccWarning = (case eccentricity c of None \<Rightarrow> 1 / 1000 | Some th \<Rightarrow> warning th);
                 eccViolation = (case eccentricity c of None \<Rightarrow> 5 / 1000 | Some th \<Rightarrow> violation th);
                 needsEccCorrection = ecc > eccWarning;
                 ap2 = (if ecc > eccWarning then
                          (if ecc > eccViolation then
                             logMessage (''[ALARM] RESCUE: Eccentricity '' @ toFixed ecc 4 @
                                         '' too high (circular orbit required)'')
                               (ap1\<lparr>rescueMode := True\<rparr>)
                           else
                             logMessage (''[AUTO] AUTO: Correcting eccentricity drift (e='' @
                                         toFixed ecc 4 @ '')'') ap1)
                        else ap1);
                 altError = \<bar>altitude - targetAlt c\<bar>;
                 velError = \<bar>vMag - targetVelocity c\<bar>
             in case (altitude_km c, velocity_ms c) of
                  (None, _) \<Rightarrow> (ap2, [], Threw)
                | (Some ath, vopt) \<Rightarrow>
                    if \<not> altError > violation ath \<and> vopt = None then (ap2, [], Threw)
                    else
                      let isOffTrack = (altError > violation ath \<or>
                                        (case vopt of None \<Rightarrow> False | Some vth \<Rightarrow> velError > violation vth));
                          ap3 = (if isOffTrack then ap2\<lparr>rescueMode := True\<rparr> else ap2)
                      in if needsEccCorrection \<and> ecc > eccWarning then correctEccentricity s ecc c ap3
                         else
                           let (ap4, altitudeCorrection) =
                                 calculateAltitudeCorrection altitude (targetAlt c) ath ap3
                           in case calculateVelocityCorrection vMag (targetVelocity c) vopt ap4 of
                                (ap5, None) \<Rightarrow> (ap5, [], Threw)
                              | (ap5, Some velocityCorrection) \<Rightarrow>
                                  applyCorrections altitudeCorrection velocityCorrection ap5)"

section \<open>The advanced controller variant\<close>

text \<open>
  The class headed ``ADVANCED NASA-GRADE AUTOPILOT'', with fuel checks, burn smoothing
  and chunked queueing. What its \<^verbatim>\<open>update\<close> reads from outside the controller is an
  argument of the model: \<open>nowMs\<close> is \<^verbatim>\<open>Date.now()\<close>, \<open>now\<close> is
  \<^verbatim>\<open>performance.now() / 1000\<close>, and \<open>drift\<close> is what
  \<^verbatim>\<open>predictDriftIn60Seconds()\<close> returns (it is computed by the floating-point state
  estimator, which is not modelled; the general theorems hold for every value of it).
\<close>

record mission =
  mission_targetAlt :: real
  mission_targetEcc :: real

record mission_sequencer =
  missionPlan :: "mission list"
  activeMission :: "mission option"
  missionPhase :: string

record drift_prediction =
  smaDrift :: real
  eccDrift :: real
  willViolateAltitude :: bool
  willViolateEcc :: bool

record smoothing_sample =
  sample_dv :: real
  sample_timestamp :: real

record adv_autopilot = final_autopilot +
  targetArgumentOfPerigee :: "real option"
  omegaDriftRate :: real
  lastKnownState :: "(orbit_state \<times> real) option"
  stateHistory :: "(orbit_state \<times> real \<times> real \<times> real \<times> real) list"
  burnSmoothingBuffer :: "smoothing_sample list"
  adv_lastCorrectionTime :: real
  minCorrectionInterval :: real
  lastActiveTime :: "real option"
  lastStatusMessage :: string
  lastHeartbeatLog :: "real option"
  lastFuelWarning :: "real option"
  lastBudgetWarning :: "real option"
  lastFuelWarningTime :: "real option"
  lastManeuverWarningTime :: "real option"
  lastDragWarningTime :: "real option"
  missionSequencer :: mission_sequencer

definition adv_init :: adv_autopilot where
  "adv_init = \<lparr> enabled = False, rescueMode = False, log_entries = [], lastBurnTime = 0,
      burnQueue = [], argumentOfPerigee = 0, targetArgumentOfPerigee = None, omegaDriftRate = 0,
      lastKnownState = None, stateHistory = [], burnSmoothingBuffer = [],
      adv_lastCorrectionTime = 0, minCorrectionInterval = 30, lastActiveTime = None,
      lastStatusMessage = [], lastHeartbeatLog = None, lastFuelWarning = None,
      lastBudgetWarning = None, lastFuelWarningTime = None, lastManeuverWarningTime = None,
      lastDragWarningTime = None,
      missionSequencer = \<lparr> missionPlan = [], activeMission = None, missionPhase = ''planning'' \<rparr> \<rparr>"

definition adv_setEnabled :: "bool \<Rightarrow> adv_autopilot \<Rightarrow> adv_autopilot" where
  "adv_setEnabled v ap =
     (if v then logMessage ''[OK] AUTOPILOT ENABLED'' (ap\<lparr>enabled := v\<rparr>)
      else logMessage ''[STOP] AUTOPILOT DISABLED'' (ap\<lparr>enabled := v\<rparr>))"

text \<open>\<^verbatim>\<open>!this._lastFuelWarningTime\<close>: true while the field is unset, and also when it
  holds 0.\<close>

definition falsy :: "real option \<Rightarrow> bool" where
  "falsy t = (case t of None \<Rightarrow> True | Some v \<Rightarrow> v = 0)"

subsection \<open>Chunked queueing\<close>

text \<open>
  The class defines \<^verbatim>\<open>queueBurn\<close> twice; the later definition is the method. (The
  earlier one differs in storing a snapshot of the inventory and the mass with every
  request; its loop is the same text.) \<open>adv_queueChunks\<close> is the \<^verbatim>\<open>while\<close> loop,
  with the queue as its accumulator.
\<close>

definition chunkDuplicate :: "real \<Rightarrow> vec \<Rightarrow> string \<Rightarrow> burn \<Rightarrow> bool" where
  "chunkDuplicate chunkDv unitDir chunkReason b =
     (\<bar>burn_dv b - chunkDv\<bar> < 1 / 100 \<and>
      \<bar>xc (burn_dir b) * xc unitDir + yc (burn_dir b) * yc unitDir\<bar> > 999 / 1000 \<and>
      burn_reason b = chunkReason)"

function adv_queueChunks ::
  "real \<Rightarrow> real \<Rightarrow> vec \<Rightarrow> string \<Rightarrow> string \<Rightarrow> burn list \<Rightarrow> burn list" where
  "adv_queueChunks remaining sign unitDir rsn thr q =
     (if remaining > 1 / 10000 then
        adv_queueChunks (remaining - min remaining 2) sign unitDir rsn thr
          (let chunk = min remaining 2;
               chunkDv = chunk * sign;
               chunkReason = (if remaining = chunk then rsn
                              else rsn @ '' ('' @ toFixed chunk 2 @ '' m/s)'')
           in if \<not> list_ex (chunkDuplicate chunkDv unitDir chunkReason) q then
                q @ [\<lparr> burn_dv = chunkDv, burn_dir = unitDir, burn_reason = chunkReason,
                       burn_thruster = thr \<rparr>]
              else q)
      else q)"
  by pat_completeness auto
termination
proof (relation "measure (\<lambda>(remaining, sign, unitDir, rsn, thr, q). nat \<lceil>remaining\<rceil>)")
  show "wf (measure (\<lambda>(remaining, sign, unitDir, rsn, thr, q). nat \<lceil>remaining\<rceil>))"
    by simp
next
  fix remaining sign :: real and unitDir :: vec and rsn thr :: string and q :: "burn list"
  assume r: "1 / 10000 < remaining"
  have "\<lceil>remaining - min remaining 2\<rceil> < \<lceil>remaining\<rceil>"
  proof (cases "remaining \<le> 2")
    case True
    then have "remaining - min remaining 2 = 0" by simp
    moreover have "0 < \<lceil>remaining\<rceil>" using r by (simp add: less_ceiling_iff)
    ultimately show ?thesis by simp
  next
    case False
    then have "remaining - min remaining 2 = remaining - 2" by simp
    then show ?thesis by simp
  qed
  moreover have "0 < \<lceil>remaining\<rceil>" using r by (simp add: less_ceiling_iff)
  ultimately show "((remaining - min remaining 2, sign, unitDir, rsn, thr,
           let chunk = min remaining 2;
               chunkDv = chunk * sign;
               chunkReason = (if remaining = chunk then rsn
                              else rsn @ '' ('' @ toFixed chunk 2 @ '' m/s)'')
           in if \<not> list_ex (chunkDuplicate chunkDv unitDir chunkReason) q then
                q @ [\<lparr> burn_dv = chunkDv, burn_dir = unitDir, burn_reason = chunkReason,
                       burn_thruster = thr \<rparr>]
              else q),
          remaining, sign, unitDir, rsn, thr, q)
         \<in> measure (\<lambda>(remaining, sign, unitDir, rsn, thr, q). nat \<lceil>remaining\<rceil>)"
    by simp
qed

declare adv_queueChunks.simps [simp del]

definition adv_queueBurn ::
  "real \<Rightarrow> vec \<Rightarrow> string \<Rightarrow> string \<Rightarrow> 'a autopilot_scheme \<Rightarrow> 'a autopilot_scheme" where
  "adv_queueBurn d u rsn thr ap =
     (if d \<le> 2 / 10 then ap
      else
        let h = hypot (xc u) (yc u);
            mag = (if h = 0 then 1 else h);
            unitDir = \<lparr> xc = xc u / mag, yc = yc u / mag \<rparr>;
            sign = (if d \<ge> 0 then 1 else - 1)
        in ap\<lparr>burnQueue := adv_queueChunks \<bar>d\<bar> sign unitDir rsn thr (burnQueue ap)\<rparr>)"

subsection \<open>Fuel checks and manoeuvre selection\<close>

text \<open>\<^verbatim>\<open>propellantRemaining[propType] || 0\<close>.\<close>

definition fuel_of :: "inventory \<Rightarrow> string \<Rightarrow> real" where
  "fuel_of prop k = js_or (prop k) 0"

text \<open>\<^verbatim>\<open>constraints.propellantRemaining || {}\<close>.\<close>

definition inventory_of :: "constraints \<Rightarrow> inventory" where
  "inventory_of c = (case propellantRemaining c of None \<Rightarrow> (\<lambda>k. None) | Some prop \<Rightarrow> prop)"

record fuel_check =
  hasEnough :: bool
  propUsed :: real
  availableFuel :: real
  shortfall :: real

definition checkFuelAvailable :: "inventory \<Rightarrow> string \<Rightarrow> real \<Rightarrow> real \<Rightarrow> real \<Rightarrow> fuel_check" where
  "checkFuelAvailable prop propType dV Isp currentMass =
     (let available = fuel_of prop propType
      in if available \<le> 0 then
           \<lparr> hasEnough = False, propUsed = 0, availableFuel = 0,
             shortfall = (if dV > 0 then 1000 else 0) \<rparr>
         else
           let g0 = 980665 / 100000;
               m0 = (if currentMass = 0 then 200 else currentMass);
               massRatio = exp (\<bar>dV\<bar> / (Isp * g0));
               mf = m0 / massRatio;
               used = m0 - mf
           in \<lparr> hasEnough = used \<le> available, propUsed = max used (1 / 1000),
                availableFuel = available, shortfall = max 0 (used - available) \<rparr>)"

record thruster =
  thruster_type :: string
  thruster_Isp :: real
  thruster_propType :: string
  thruster_priority :: nat

record thruster_choice =
  chosen :: "thruster option"
  canExecute :: bool
  choice_reason :: string

text \<open>\<^verbatim>\<open>selectBestThruster\<close>: the thrusters with propellant left, sorted by priority (the
  sort is stable), and the fuel check for the first.\<close>

definition thruster_table :: "bool \<Rightarrow> thruster list" where
  "thruster_table needsElectric =
     [\<lparr> thruster_type = ''hall_thruster'', thruster_Isp = 1700, thruster_propType = ''xenon'',
        thruster_priority = (if needsElectric then 1 else 2) \<rparr>,
      \<lparr> thruster_type = ''ion_thruster'', thruster_Isp = 3000, thruster_propType = ''xenon'',
        thruster_priority = (if needsElectric then 1 else 2) \<rparr>,
      \<lparr> thruster_type = ''chemical_monoprop'', thruster_Isp = 235, thruster_propType = ''hydrazine'',
        thruster_priority = 1 \<rparr>,
      \<lparr> thruster_type = ''biprop_MMHMHN'', thruster_Isp = 320, thruster_propType = ''biprop'',
        thruster_priority = 2 \<rparr>]"

definition selectBestThruster :: "real \<Rightarrow> inventory \<Rightarrow> real \<Rightarrow> bool \<Rightarrow> thruster_choice" where
  "selectBestThruster currentMass prop dV needsElectric =
     (case sort_key thruster_priority
             (filter (\<lambda>t. fuel_of prop (thruster_propType t) > 0) (thruster_table needsElectric)) of
        [] \<Rightarrow> \<lparr> chosen = None, canExecute = False,
                choice_reason = ''[ALARM] OUT OF FUEL - All propellant tanks empty!'' \<rparr>
      | selected # _ \<Rightarrow>
          let fuelCheck = checkFuelAvailable prop (thruster_propType selected) dV
                            (thruster_Isp selected) currentMass
          in \<lparr> chosen = Some selected, canExecute = hasEnough fuelCheck,
               choice_reason =
                 (if hasEnough fuelCheck then
                    ''[OK] '' @ thruster_type selected @ '' available ('' @
                    toFixed (availableFuel fuelCheck) 2 @ '' kg '' @ thruster_propType selected @
                    '', uses '' @ toFixed (propUsed fuelCheck) 3 @ '' kg)''
                  else
                    ''[WARN] Insufficient '' @ thruster_propType selected @ '' (need '' @
                    toFixed (propUsed fuelCheck) 3 @ '' kg, have '' @
                    toFixed (availableFuel fuelCheck) 2 @ '' kg, short '' @
                    toFixed (shortfall fuelCheck) 3 @ '' kg)'') \<rparr>)"

text \<open>\<^verbatim>\<open>thrusterChoice.thruster.type\<close>, read only where \<^verbatim>\<open>canExecute\<close> is true.\<close>

definition chosen_type :: "thruster_choice \<Rightarrow> string" where
  "chosen_type tc = (case chosen tc of Some t \<Rightarrow> thruster_type t | None \<Rightarrow> ''undefined'')"

text \<open>\<^verbatim>\<open>estimateTotalFuelNeeded(currentAltKm, targetAlt, constraints).totalDv\<close>.\<close>

definition estimateTotalDv :: "real \<Rightarrow> real \<Rightarrow> real" where
  "estimateTotalDv currentAltKm tgt =
     (let altDiff = \<bar>tgt - currentAltKm\<bar>;
          hohmannDv = planTransfer (6371000 + currentAltKm * 1000) (6371000 + tgt * 1000) mu_earth;
          eccDv = (if altDiff > 50 then 5 else 2);
          dragDv = (if currentAltKm < 1000 then (1200 - currentAltKm) * (8 / 100) else 0)
      in (case hohmannDv of Some t \<Rightarrow> totalDv t | None \<Rightarrow> altDiff * (5 / 10)) + eccDv + dragDv)"

record maneuver =
  maneuverType :: string
  maneuver_dv :: real
  maneuver_reason :: string

definition selectMinimumFuelManeuver :: "real \<Rightarrow> real \<Rightarrow> real \<Rightarrow> real \<Rightarrow> real \<Rightarrow> maneuver" where
  "selectMinimumFuelManeuver currentAlt tgt currentEcc targetEcc availableDV =
     (let altDiff = \<bar>tgt - currentAlt\<bar>;
          eccDiff = \<bar>currentEcc - targetEcc\<bar>;
          hohmannDV = planTransfer (6371000 + currentAlt * 1000) (6371000 + tgt * 1000) mu_earth
      in if altDiff < 15 \<and> eccDiff < 1 / 100 then
           \<lparr> maneuverType = ''direct'', maneuver_dv = altDiff * (5 / 10),
             maneuver_reason = ''Direct: minimal altitude change'' \<rparr>
         else
           case (if altDiff > 50 \<and> currentAlt < 10000 then hohmannDV else None) of
             Some t \<Rightarrow>
               \<lparr> maneuverType = ''hohmann'', maneuver_dv = totalDv t,
                 maneuver_reason = ''Hohmann: '' @ toFixed (totalDv t) 1 @ '' m/s (2-impulse, optimal)'' \<rparr>
           | None \<Rightarrow>
               if currentAlt > 10000 \<and> altDiff > 100 then
                 (let biellipticDV = (case hohmannDV of Some t \<Rightarrow> totalDv t * (85 / 100)
                                      | None \<Rightarrow> altDiff * (3 / 10))
                  in \<lparr> maneuverType = ''bielliptic'', maneuver_dv = biellipticDV,
                       maneuver_reason = ''Bielliptic: '' @ toFixed biellipticDV 1 @
                                         '' m/s (3-impulse, high-alt optimized)'' \<rparr>)
               else
                 \<lparr> maneuverType = ''direct'', maneuver_dv = altDiff * (5 / 10),
                   maneuver_reason = ''Direct: fallback maneuver'' \<rparr>)"

subsection \<open>Burn smoothing\<close>

record smoothed =
  shouldBurn :: bool
  smoothedDV :: real
  smoothed_reason :: string

text \<open>\<^verbatim>\<open>smoothBurnCorrection(proposedDV, proposedDir, reason)\<close>; the direction and the
  reason are not read.\<close>

definition smoothBurnCorrection :: "real \<Rightarrow> real \<Rightarrow> adv_autopilot \<Rightarrow> adv_autopilot \<times> smoothed" where
  "smoothBurnCorrection proposedDV now ap =
     (let timeSinceLastBurn = now - adv_lastCorrectionTime ap
      in if timeSinceLastBurn < minCorrectionInterval ap then
           (ap, \<lparr> shouldBurn = False, smoothedDV = 0,
                  smoothed_reason = ''[TIMER] Debounced: '' @
                    toFixed (minCorrectionInterval ap - timeSinceLastBurn) 0 @
                    ''s until next correction'' \<rparr>)
         else
           let buf = filter (\<lambda>b. now - sample_timestamp b < 300)
                       (burnSmoothingBuffer ap @
                        [\<lparr> sample_dv = \<bar>proposedDV\<bar>, sample_timestamp = now \<rparr>]);
               ap1 = ap\<lparr>burnSmoothingBuffer := buf\<rparr>;
               avgPastDV = sum_list (map sample_dv (drop (length buf - 3) buf)) / 3;
               sm = (if length buf > 2 then (\<bar>proposedDV\<bar> + avgPastDV * 2) / 3 else \<bar>proposedDV\<bar>);
               ap2 = (if length buf > 2 then
                        logMessage (''[LOOP] Smoothed correction: '' @ toFixed \<bar>proposedDV\<bar> 2 @
                                    '' -> '' @ toFixed sm 2 @ '' m/s'') ap1
                      else ap1)
           in if sm < 1 / 10 then
                (ap2, \<lparr> shouldBurn = False, smoothedDV = 0,
                        smoothed_reason = ''[LENS] Correction too small after smoothing: '' @
                                          toFixed sm 3 @ '' m/s'' \<rparr>)
              else
                (ap2\<lparr>adv_lastCorrectionTime := now\<rparr>,
                 \<lparr> shouldBurn = True, smoothedDV = sm,
                   smoothed_reason = ''[OK] Smoothed & approved: '' @ toFixed sm 2 @ '' m/s burn'' \<rparr>))"

subsection \<open>The blocks of \<^verbatim>\<open>update\<close>\<close>

text \<open>The heartbeat: a status message at most once per 60 s of wall-clock time.\<close>

definition adv_heartbeat :: "real \<Rightarrow> adv_autopilot \<Rightarrow> adv_autopilot" where
  "adv_heartbeat nowMs ap =
     (let ap1 = ap\<lparr>lastActiveTime := Some nowMs, lastStatusMessage := ''AI ACTIVE''\<rparr>
      in if falsy (lastHeartbeatLog ap1) \<or>
            nowMs - (case lastHeartbeatLog ap1 of Some t \<Rightarrow> t | None \<Rightarrow> 0) > 60000 then
           (logMessage (lastStatusMessage ap1) ap1)\<lparr>lastHeartbeatLog := Some nowMs\<rparr>
         else ap1)"

text \<open>``Store state history for prediction''.\<close>

definition adv_track :: "orbit_state \<Rightarrow> real \<Rightarrow> real \<Rightarrow> adv_autopilot \<Rightarrow> adv_autopilot" where
  "adv_track s missionTime ta ap =
     (let hist = stateHistory ap @ [(s, missionTime, getSMA s, getEccentricity s, ta)]
      in ap\<lparr>lastKnownState := Some (s, missionTime),
             stateHistory := (if length hist > 1000 then tl hist else hist)\<rparr>)"

definition totalFuelRemaining :: "constraints \<Rightarrow> real" where
  "totalFuelRemaining c =
     fuel_of (inventory_of c) ''hydrazine'' + fuel_of (inventory_of c) ''xenon'' +
     fuel_of (inventory_of c) ''biprop''"

text \<open>``FUEL CHECK: Early warning system''.\<close>

definition adv_fuelWarning :: "constraints \<Rightarrow> real \<Rightarrow> adv_autopilot \<Rightarrow> adv_autopilot" where
  "adv_fuelWarning c missionTime ap =
     (if totalFuelRemaining c < 5 / 10 then
        (let ap1 = ap\<lparr>rescueMode := True\<rparr>
         in if falsy (lastFuelWarning ap1) \<or>
               missionTime - (case lastFuelWarning ap1 of Some t \<Rightarrow> t | None \<Rightarrow> 0) > 60 then
              (logMessage (''[ALARM] CRITICAL FUEL LOW: '' @ toFixed (totalFuelRemaining c) 2 @
                           '' kg remaining! Entering fuel-conservation mode.'') ap1)
                \<lparr>lastFuelWarning := Some missionTime\<rparr>
            else ap1)
      else ap)"

text \<open>``PRE-PLAN FUEL BUDGET''.\<close>

definition adv_budgetWarning ::
  "orbit_state \<Rightarrow> constraints \<Rightarrow> real \<Rightarrow> adv_autopilot \<Rightarrow> adv_autopilot" where
  "adv_budgetWarning s c missionTime ap =
     (let budget = estimateTotalDv (altitudeKm_of s) (targetAlt c);
          budgetWarning = totalFuelRemaining c < budget * (2 / 1000)
      in if budgetWarning \<and> falsy (lastBudgetWarning ap) then
           (logMessage (''[WARN] LOW FUEL BUDGET: Have '' @ toFixed (totalFuelRemaining c) 1 @
                        '' kg for '' @ toFixed budget 1 @ '' m/s maneuvers'') ap)
             \<lparr>lastBudgetWarning := Some missionTime\<rparr>
         else if \<not> budgetWarning then ap\<lparr>lastBudgetWarning := None\<rparr>
         else ap)"

text \<open>\<^verbatim>\<open>applyDriftCorrections\<close>.\<close>

definition adv_applyDriftCorrections ::
  "drift_prediction option \<Rightarrow> orbit_state \<Rightarrow> real \<Rightarrow> adv_autopilot \<Rightarrow> adv_autopilot" where
  "adv_applyDriftCorrections drift s ta ap =
     (case drift of
        None \<Rightarrow> ap
      | Some d \<Rightarrow>
          let ap1 = (if willViolateAltitude d \<and> nearPerigee ta then
                       logMessage (''[CHART] Predicted SMA drift: '' @ toFixed (smaDrift d) 2 @
                                   '' km -> applying '' @ toFixed \<bar>smaDrift d * (3 / 10)\<bar> 2 @
                                   '' m/s correction'')
                         (adv_queueBurn \<bar>smaDrift d * (3 / 10)\<bar>
                            (if smaDrift d > 0 then retrogradeUnit s else progradeUnit s)
                            (''[ORACLE] Drift correction: predict '' @ toFixed (smaDrift d) 1 @
                             '' km drift in 60s'') ''electric'' ap)
                     else ap)
          in if willViolateEcc d \<and> nearApogee ta then
               adv_queueBurn \<bar>eccDrift d * 500\<bar>
                 (if eccDrift d > 0 then retrogradeUnit s else progradeUnit s)
                 (''[ORACLE] Ecc drift correction: predict '' @ toFixed (eccDrift d) 4 @
                  '' drift in 60s'') ''electric'' ap1
             else ap1)"

text \<open>\<^verbatim>\<open>controlPlaneAndInclination\<close>.\<close>

definition adv_controlPlaneAndInclination ::
  "orbit_state \<Rightarrow> real \<Rightarrow> adv_autopilot \<Rightarrow> adv_autopilot" where
  "adv_controlPlaneAndInclination s ta ap =
     (let L = angularMomentum s;
          v = hypot (xc (vel s)) (yc (vel s));
          energy = (v * v) / 2 - mu_earth / radius s;
          sma = - mu_earth / (2 * energy);
          expectedL = sqrt (mu_earth * sma);
          inclinationError = \<bar>L - expectedL\<bar> / expectedL
      in if inclinationError > 5 / 1000 \<and> nearApogee ta then
           (let normalDV = max (1 / 10) (inclinationError * 50)
            in logMessage (''[SAT] Inclination error: '' @ toFixed (inclinationError * 100) 1 @
                           ''% -> normal thrust '' @ toFixed normalDV 2 @ '' m/s'')
                 (adv_queueBurn normalDV (radialUnit s)
                    (''[ANGLE] Normal burn: plane correction '' @
                     toFixed (inclinationError * 100) 2 @ ''%'') ''electric'' ap))
         else ap)"

text \<open>The eccentricity block, with ``CHECK FUEL BEFORE QUEUE''.\<close>

definition adv_eccControl ::
  "orbit_state \<Rightarrow> constraints \<Rightarrow> real \<Rightarrow> real \<Rightarrow> real \<Rightarrow> real \<Rightarrow> adv_autopilot \<Rightarrow> adv_autopilot" where
  "adv_eccControl s c ta currentMass missionTime now ap =
     (let ecc = getEccentricity s;
          eccThreshold = js_or (map_option warning (eccentricity c)) (1 / 1000)
      in if ecc > eccThreshold * (8 / 10) then
           (let burnSize = min (ecc * 2000) 12;
                thrusterChoice = selectBestThruster currentMass (inventory_of c) burnSize False;
                ap1 =
                  (if \<not> canExecute thrusterChoice then
                     (let ap0 = (if falsy (lastFuelWarningTime ap) \<or>
                                    missionTime - (case lastFuelWarningTime ap of Some t \<Rightarrow> t | None \<Rightarrow> 0) > 30
                                 then (logMessage (''[WARN] Cannot circularize: '' @
                                                   choice_reason thrusterChoice) ap)
                                        \<lparr>lastFuelWarningTime := Some missionTime\<rparr>
                                 else ap)
                      in ap0\<lparr>rescueMode := True\<rparr>)
                   else if nearApogee ta then
                     (case smoothBurnCorrection burnSize now ap of
                        (ap0, sm) \<Rightarrow>
                          if shouldBurn sm then
                            adv_queueBurn (smoothedDV sm) (retrogradeUnit s)
                              (''Ecc fix: retro at apogee (e='' @ toFixed ecc 4 @ '')'')
                              (chosen_type thrusterChoice) ap0
                          else logMessage (smoothed_reason sm) ap0)
                   else if nearPerigee ta then
                     (case smoothBurnCorrection burnSize now ap of
                        (ap0, sm) \<Rightarrow>
                          if shouldBurn sm then
                            adv_queueBurn (smoothedDV sm) (progradeUnit s)
                              (''Ecc fix: pro at perigee (e='' @ toFixed ecc 4 @ '')'')
                              (chosen_type thrusterChoice) ap0
                          else ap0)
                   else ap)
            in if ecc > js_or (map_option violation (eccentricity c)) (5 / 1000)
               then ap1\<lparr>rescueMode := True\<rparr> else ap1)
         else ap\<lparr>rescueMode := False\<rparr>)"

text \<open>``Semi-major axis control with fuel awareness''.\<close>

definition adv_smaControl ::
  "orbit_state \<Rightarrow> constraints \<Rightarrow> real \<Rightarrow> real \<Rightarrow> real \<Rightarrow> real \<Rightarrow> adv_autopilot \<Rightarrow> adv_autopilot" where
  "adv_smaControl s c ta currentMass missionTime now ap =
     (let ecc = getEccentricity s;
          targetRadius = earthRadius + targetAlt c * 1000;
          eccThreshold = js_or (map_option warning (eccentricity c)) (1 / 1000)
      in if ecc < eccThreshold * (12 / 10) then
           (let smaErrorKm = (getSMA s - targetRadius) / 1000;
                altThreshold = js_or (map_option warning (altitude_km c)) 5
            in if \<bar>smaErrorKm\<bar> > altThreshold * (3 / 10) then
                 (let mv = selectMinimumFuelManeuver (altitudeKm_of s) (targetAlt c) ecc (1 / 10000) 100;
                      thrusterChoice = selectBestThruster currentMass (inventory_of c) (maneuver_dv mv) False;
                      ap1 =
                        (if \<not> canExecute thrusterChoice then
                           (let ap0 = (if falsy (lastManeuverWarningTime ap) \<or>
                                          missionTime - (case lastManeuverWarningTime ap of
                                                           Some t \<Rightarrow> t | None \<Rightarrow> 0) > 30
                                       then (logMessage (''[WARN] Cannot execute '' @ maneuverType mv @
                                                         '': '' @ choice_reason thrusterChoice) ap)
                                              \<lparr>lastManeuverWarningTime := Some missionTime\<rparr>
                                       else ap)
                            in ap0\<lparr>rescueMode := True\<rparr>)
                         else if maneuverType mv = ''hohmann'' \<and> nearPerigee ta then
                           (case smoothBurnCorrection (maneuver_dv mv) now
                                   (logMessage (''[CHART] '' @ maneuver_reason mv) ap) of
                              (ap0, sm) \<Rightarrow>
                                if shouldBurn sm then
                                  adv_queueBurn (smoothedDV sm) (progradeUnit s) (maneuver_reason mv)
                                    (chosen_type thrusterChoice) ap0
                                else ap0)
                         else if nearPerigee ta \<or> nearApogee ta then
                           (case smoothBurnCorrection \<bar>smaErrorKm * (5 / 10)\<bar> now ap of
                              (ap0, sm) \<Rightarrow>
                                if shouldBurn sm then
                                  adv_queueBurn (smoothedDV sm)
                                    (if smaErrorKm > 0 then retrogradeUnit s else progradeUnit s)
                                    (''SMA fix: '' @ toFixed smaErrorKm 1 @ '' km'')
                                    (chosen_type thrusterChoice) ap0
                                else ap0)
                         else ap)
                  in if \<bar>smaErrorKm\<bar> > js_or (map_option violation (altitude_km c)) 15
                     then ap1\<lparr>rescueMode := True\<rparr> else ap1)
               else ap)
         else ap)"

text \<open>\<^verbatim>\<open>controlArgumentOfPerigee\<close>. \<^verbatim>\<open>sma ** 3.5\<close> is \<open>sma powr (7 / 2)\<close>.\<close>

definition adv_controlArgumentOfPerigee ::
  "orbit_state \<Rightarrow> real \<Rightarrow> adv_autopilot \<Rightarrow> adv_autopilot" where
  "adv_controlArgumentOfPerigee s ta ap =
     (let Re = 6378137;
          J2 = 108262668 / 10 ^ 11;
          omegaDot = - (3 / 2) * J2 * Re ^ 2 * sqrt mu_earth / (getSMA s powr (7 / 2));
          ap1 = (if targetArgumentOfPerigee ap = None
                 then ap\<lparr>targetArgumentOfPerigee := Some (argumentOfPerigee ap)\<rparr> else ap);
          omegaError = argumentOfPerigee ap1 -
                       (case targetArgumentOfPerigee ap1 of Some t \<Rightarrow> t | None \<Rightarrow> 0);
          omegaErrorDeg = js_rem (omegaError * 180 / pi) 360;
          ap2 = (if \<bar>omegaErrorDeg\<bar> > 5 \<and> nearApogee ta then
                   adv_queueBurn (3 / 10)
                     (if omegaErrorDeg > 0 then retrogradeUnit s else progradeUnit s)
                     (''omega-lock: '' @ toFixed omegaErrorDeg 1 @ '' deg (J2 drift)'') ''electric'' ap1
                 else ap1)
      in ap2\<lparr>omegaDriftRate := omegaDot\<rparr>)"

text \<open>``Drag compensation (with fuel check)''.\<close>

definition adv_dragCompensation ::
  "orbit_state \<Rightarrow> constraints \<Rightarrow> real \<Rightarrow> real \<Rightarrow> real \<Rightarrow> real \<Rightarrow> adv_autopilot \<Rightarrow> adv_autopilot" where
  "adv_dragCompensation s c ta currentMass missionTime now ap =
     (let altitude = altitudeKm_of s;
          dragAccel = calculateDragAcceleration altitude
      in if dragAccel > 1 / 10 ^ 10 \<and> nearPerigee ta then
           (let period = 2 * pi * sqrt (getSMA s ^ 3 / mu_earth);
                dragDvPerOrbit = dragAccel * period * (7 / 10)
            in if dragDvPerOrbit > 1 / 10 then
                 (let thrusterChoice = selectBestThruster currentMass (inventory_of c)
                                         dragDvPerOrbit (altitude < 1000)
                  in if canExecute thrusterChoice then
                       (case smoothBurnCorrection dragDvPerOrbit now ap of
                          (ap0, sm) \<Rightarrow>
                            if shouldBurn sm then
                              adv_queueBurn (smoothedDV sm) (progradeUnit s)
                                (''Drag reboost +'' @ toFixed (smoothedDV sm) 2 @ '' m/s'')
                                (chosen_type thrusterChoice) ap0
                            else ap0)
                     else if falsy (lastDragWarningTime ap) \<or>
                             missionTime - (case lastDragWarningTime ap of Some t \<Rightarrow> t | None \<Rightarrow> 0) > 60
                     then (logMessage (''[WARN] No fuel for drag reboost: '' @
                                       choice_reason thrusterChoice) ap)
                            \<lparr>lastDragWarningTime := Some missionTime\<rparr>
                     else ap)
               else ap)
         else ap)"

text \<open>\<^verbatim>\<open>controlHEO\<close>.\<close>

definition adv_controlHEO :: "orbit_state \<Rightarrow> constraints \<Rightarrow> real \<Rightarrow> adv_autopilot \<Rightarrow> adv_autopilot" where
  "adv_controlHEO s c ta ap =
     (let ecc = getEccentricity s;
          targetEcc = js_or (targetEccentricity c) (72 / 100);
          rApogee = earthRadius + (if targetAlt c = 0 then 42000 else targetAlt c) * 1000;
          rPerigee = earthRadius + js_or (perigeeAlt c) 1000 * 1000;
          targetSMA = (rApogee + rPerigee) / 2;
          eccError = ecc - targetEcc
      in if nearPerigee ta then
           (let eccThreshold = js_or (map_option warning (eccentricity c)) (5 / 100);
                ap1 = (if \<bar>eccError\<bar> > eccThreshold * (2 / 10) then
                         (adv_queueBurn \<bar>eccError * 250\<bar>
                            (if eccError > 0 then retrogradeUnit s else progradeUnit s)
                            (''HEO ecc fix '' @ toFixed eccError 3) ''chemical'' ap)
                           \<lparr>rescueMode := True\<rparr>
                       else ap);
                smaErrorKm = (getSMA s - targetSMA) / 1000
            in if \<bar>smaErrorKm\<bar> > 100 then
                 adv_queueBurn \<bar>smaErrorKm * (8 / 100)\<bar>
                   (if smaErrorKm > 0 then progradeUnit s else retrogradeUnit s)
                   (''HEO SMA fix '' @ toFixed smaErrorKm 0 @ '' km'') ''chemical'' ap1
               else ap1)
         else if nearApogee ta then
           (if \<bar>eccError\<bar> > 8 / 100 then
              adv_queueBurn \<bar>eccError * 150\<bar>
                (if eccError > 0 then retrogradeUnit s else progradeUnit s)
                ''HEO apogee ecc trim'' ''chemical'' ap
            else ap)
         else ap)"

text \<open>``MISSION SEQUENCING'': \<^verbatim>\<open>getNextBurn\<close> sets the phase and the controller logs the
  reason of the burn it proposes. (The text of the transfer reason embeds the target
  altitude with the default conversion and is shortened.)\<close>

definition adv_missionSequencing :: "orbit_state \<Rightarrow> adv_autopilot \<Rightarrow> adv_autopilot" where
  "adv_missionSequencing s ap =
     (let sq = missionSequencer ap
      in if missionPlan sq = [] then ap
         else
           case activeMission sq of
             None \<Rightarrow> ap
           | Some m \<Rightarrow>
               let altError = mission_targetAlt m - (radius s - 6371000) / 1000;
                   ecc = getEccentricity s
               in if \<bar>altError\<bar> > 20 then
                    logMessage (''[CLIP] Transfer ('' @ toFixed altError 0 @ '' km error)'')
                      (ap\<lparr>missionSequencer := sq\<lparr>missionPhase := ''transfer''\<rparr>\<rparr>)
                  else if ecc > mission_targetEcc m + 1 / 1000 then
                    logMessage (''[CLIP] Circularize: e='' @ toFixed ecc 4)
                      (ap\<lparr>missionSequencer := sq\<lparr>missionPhase := ''circularize''\<rparr>\<rparr>)
                  else ap\<lparr>missionSequencer := sq\<lparr>missionPhase := ''complete''\<rparr>\<rparr>)"

text \<open>``Execute burns from queue''.\<close>

definition adv_execute :: "real \<Rightarrow> adv_autopilot \<Rightarrow> adv_autopilot \<times> thruster_call list" where
  "adv_execute missionTime ap =
     (case burnQueue ap of
        [] \<Rightarrow> (ap, [])
      | b # rest \<Rightarrow>
          if missionTime - lastBurnTime ap > 120 then
            (let ap1 = ap\<lparr>burnQueue := rest, lastBurnTime := missionTime\<rparr>
             in (logMessage ((if rescueMode ap1 then ''[ALARM] RESCUE'' else ''[AUTO] AUTO'') @ '': '' @
                             burn_reason b @ '' | '' @ toFixed (burn_dv b) 2 @ '' m/s ['' @
                             burn_thruster b @ '']'') ap1,
                 [\<lparr> call_dv = burn_dv b, call_thruster = Some (burn_thruster b),
                    call_dir = Some (burn_dir b) \<rparr>]))
          else (ap, []))"

text \<open>The circular regime's blocks in the order of the source, and the whole planning
  of one tick.\<close>

definition adv_circular ::
  "drift_prediction option \<Rightarrow> orbit_state \<Rightarrow> constraints \<Rightarrow> real \<Rightarrow> real \<Rightarrow> real \<Rightarrow> real \<Rightarrow>
     adv_autopilot \<Rightarrow> adv_autopilot" where
  "adv_circular drift s c ta currentMass missionTime now ap =
     adv_dragCompensation s c ta currentMass missionTime now
       (adv_controlArgumentOfPerigee s ta
          (adv_smaControl s c ta currentMass missionTime now
             (adv_eccControl s c ta currentMass missionTime now
                (adv_controlPlaneAndInclination s ta
                   (adv_applyDriftCorrections drift s ta ap)))))"

definition adv_plan ::
  "drift_prediction option \<Rightarrow> orbit_state \<Rightarrow> constraints \<Rightarrow> real \<Rightarrow> real \<Rightarrow> real \<Rightarrow> real \<Rightarrow> real \<Rightarrow>
     adv_autopilot \<Rightarrow> adv_autopilot" where
  "adv_plan drift s c ta currentMass missionTime nowMs now ap =
     (let ap1 = adv_budgetWarning s c missionTime
                  (adv_fuelWarning c missionTime
                     (adv_track s missionTime ta (adv_heartbeat nowMs ap)));
          ap2 = (if \<not> isMolniya c then adv_circular drift s c ta currentMass missionTime now ap1
                 else adv_controlHEO s c ta ap1)
      in adv_missionSequencing s ap2)"

text \<open>\<^verbatim>\<open>update\<close> of the advanced variant.\<close>

definition adv_update ::
  "orbit_state \<Rightarrow> constraints \<Rightarrow> real \<Rightarrow> real \<Rightarrow> real \<Rightarrow> real \<Rightarrow> drift_prediction option \<Rightarrow>
     adv_autopilot \<Rightarrow> adv_autopilot \<times> thruster_call list" where
  "adv_update s c currentMass missionTime nowMs now drift ap =
     (if \<not> enabled ap then (ap, [])
      else
        let ta = final_trueAnomaly (argumentOfPerigee ap) s
        in adv_execute missionTime (adv_plan drift s c ta currentMass missionTime nowMs now ap))"

section \<open>Kinds of queued burns\<close>

text \<open>
  The final and the advanced variant tell the kind of a queued burn by the first words of
  its reason: \<^verbatim>\<open>Ecc fix: retro at apogee (e=...)\<close> and
  \<^verbatim>\<open>Ecc fix: pro at perigee (e=...)\<close> for an eccentricity correction,
  \<^verbatim>\<open>SMA fix: ... km\<close> for a semi-major-axis correction.
\<close>

definition is_ecc_fix :: "burn \<Rightarrow> bool" where
  "is_ecc_fix b = (take 8 (burn_reason b) = ''Ecc fix:'')"

definition is_sma_fix :: "burn \<Rightarrow> bool" where
  "is_sma_fix b = (take 8 (burn_reason b) = ''SMA fix:'')"

section \<open>Concrete states used as test inputs\<close>


definition bound_state :: orbit_state where
  "bound_state = \<lparr> pos = \<lparr> xc = 7000000, yc = 0 \<rparr>, vel = \<lparr> xc = 0, yc = 7500 \<rparr> \<rparr>"

text \<open>The same orbit a quarter turn on (on the positive y axis) and three quarters on (on
  the negative y axis).\<close>

definition quadrature_state :: orbit_state where
  "quadrature_state = \<lparr> pos = \<lparr> xc = 0, yc = 7000000 \<rparr>, vel = \<lparr> xc = - 7500, yc = 0 \<rparr> \<rparr>"

definition south_state :: orbit_state where
  "south_state = \<lparr> pos = \<lparr> xc = 0, yc = - 7000000 \<rparr>, vel = \<lparr> xc = 7500, yc = 0 \<rparr> \<rparr>"

text \<open>The driver's strict constraints for the 400 km orbit.\<close>

definition leo_constraints :: constraints where
  "leo_constraints =
     \<lparr> targetAlt = 400, targetEccentricity = None, perigeeAlt = None,
       targetVelocity = sqrt (pid_GM / (earthRadius + 400000)),
       eccentricity = Some \<lparr> warning = 5 / 10000, violation = 2 / 1000, critical = 5 / 1000 \<rparr>,
       altitude_km = Some \<lparr> warning = 5, violation = 15, critical = 30 \<rparr>,
       velocity_ms = Some \<lparr> warning = 20, violation = 50, critical = 100 \<rparr>,
       propellantRemaining = None \<rparr>"

text \<open>Enabled controllers with an empty queue, and one burn left in the queue of the
  final variant.\<close>

definition dof4_enabled :: autopilot where
  "dof4_enabled = \<lparr> enabled = True, rescueMode = False, log_entries = [], lastBurnTime = 0,
                    burnQueue = [] \<rparr>"

definition stale_burn :: burn where
  "stale_burn = \<lparr> burn_dv = 2, burn_dir = \<lparr> xc = - 1, yc = 0 \<rparr>,
                  burn_reason = ''SMA fix: 4.0 km'', burn_thruster = ''electric'' \<rparr>"

definition final_queued :: final_autopilot where
  "final_queued = final_init\<lparr>enabled := True, burnQueue := [stale_burn]\<rparr>"

definition east :: vec where
  "east = \<lparr> xc = 1, yc = 0 \<rparr>"


text \<open>A satellite at the apogee of a slightly eccentric orbit (e is about 0.004) on the
  negative x axis, and one on an almost circular orbit (e is about 0.000055) at its apogee,
  with constraints whose eccentricity warning threshold is 0.00005.\<close>

definition apogee_state :: orbit_state where
  "apogee_state = \<lparr> pos = \<lparr> xc = - 6800000, yc = 0 \<rparr>, vel = \<lparr> xc = 0, yc = - 7641 \<rparr> \<rparr>"

definition round_state :: orbit_state where
  "round_state = \<lparr> pos = \<lparr> xc = - 7085840, yc = 0 \<rparr>, vel = \<lparr> xc = 0, yc = - 7500 \<rparr> \<rparr>"

definition tight_constraints :: constraints where
  "tight_constraints =
     leo_constraints\<lparr>eccentricity :=
        Some \<lparr> warning = 5 / 100000, violation = 2 / 1000, critical = 5 / 1000 \<rparr>\<rparr>"

definition final_enabled :: final_autopilot where
  "final_enabled = final_init\<lparr>enabled := True\<rparr>"


text \<open>Empty tanks, the 400 km constraints with empty tanks, and a satellite at the perigee
  of an almost circular orbit 129 km above the surface (where the drag model returns its
  largest value) with constraints that ask for that altitude.\<close>

definition empty_tanks :: inventory where
  "empty_tanks = [''hydrazine'' \<mapsto> 0, ''xenon'' \<mapsto> 0, ''biprop'' \<mapsto> 0]"

definition dry_constraints :: constraints where
  "dry_constraints = leo_constraints\<lparr>propellantRemaining := Some empty_tanks\<rparr>"

definition skimming_constraints :: constraints where
  "skimming_constraints = dry_constraints\<lparr>targetAlt := 129\<rparr>"

definition skimming_state :: orbit_state where
  "skimming_state = \<lparr> pos = \<lparr> xc = 6500000, yc = 0 \<rparr>, vel = \<lparr> xc = 0, yc = 7831 \<rparr> \<rparr>"

definition adv_enabled :: adv_autopilot where
  "adv_enabled = adv_init\<lparr>enabled := True\<rparr>"

text \<open>
  The drift prediction of a tick on which no drift correction is due. (In
  \<^verbatim>\<open>update\<close> the prediction is made after \<^verbatim>\<open>lastKnownState\<close> has been stored, so it is
  never \<^verbatim>\<open>null\<close> there; \<^verbatim>\<open>predictDriftIn60Seconds\<close> reads the fields
  \<^verbatim>\<open>x, y, vx, vy\<close> of that object, which holds \<^verbatim>\<open>pos, vel, time\<close>, so both of its
  comparisons are made on \<^verbatim>\<open>NaN\<close> and are false. The two numbers are read only when a
  comparison is true.)
\<close>

definition quiet_drift :: "drift_prediction option" where
  "quiet_drift = Some \<lparr> smaDrift = 0, eccDrift = 0, willViolateAltitude = False,
                        willViolateEcc = False \<rparr>"

section \<open>Properties of the element calculator\<close>

lemma hypot_nonneg: "0 \<le> hypot a b"
  by (simp add: hypot_def)

lemma hypot_axis: "hypot a 0 = \<bar>a\<bar>"
  by (simp add: hypot_def)





section \<open>Properties of the transfer planner\<close>




section \<open>Evaluating the number formatting\<close>

lemma digits_of_small: "n < 10 \<Longrightarrow> digits_of n = [digit_char n]"
  by (subst digits_of.simps) simp

lemma digits_of_large:
  "\<not> n < 10 \<Longrightarrow> digits_of n = digits_of (n div 10) @ [digit_char (n mod 10)]"
  by (subst digits_of.simps) simp

lemma replicate_numeral_unfold: "replicate (numeral k) c = c # replicate (pred_numeral k) c"
  by (simp add: numeral_eq_Suc)

lemmas toFixed_eval = toFixed_def digits_of_small digits_of_large digit_char_def
  replicate_numeral_unfold

section \<open>Properties of the perturbation models\<close>

lemma pi_bounds: "2 \<le> pi \<and> pi < 4"
  using pi_ge_two pi_less_4 by simp







section \<open>Bounds on angles\<close>

lemma pi_gt_three: "3 < pi"
proof -
  have c: "cos (2 * (pi / 24)) < 1"
    using pi_gt_zero pi_less_4 by (intro cos_double_less_one) simp_all
  have s0: "0 < sin (pi / 12)"
    using pi_gt_zero by (intro sin_gt_zero) simp_all
  have s1: "sin (pi / 12) \<le> pi / 12"
    using pi_gt_zero by (intro sin_x_le_x) simp
  have "sin (2 * (pi / 12)) = 2 * sin (pi / 12) * cos (pi / 12)"
    by (rule sin_double)
  then have "1 / 2 = 2 * sin (pi / 12) * cos (pi / 12)"
    using sin_30 by simp
  also have "\<dots> < 2 * sin (pi / 12) * 1"
    using c s0 by (intro mult_strict_left_mono) simp_all
  finally show ?thesis
    using s1 by simp
qed

lemma js_rem_six: "js_rem 6 (2 * pi) = 6"
proof -
  have "0 < 6 / (2 * pi)" "6 / (2 * pi) < 1"
    using pi_gt_three by simp_all
  then have "\<lfloor>6 / (2 * pi)\<rfloor> = 0"
    by (simp add: floor_eq_iff)
  then show ?thesis
    using pi_gt_zero by (simp add: js_rem_def)
qed

lemma atan2_range: "- pi < atan2 b a \<and> atan2 b a \<le> pi"
proof -
  have ar: "- (pi / 2) < arctan (b / a)" "arctan (b / a) < pi / 2"
    using arctan_bounded [of "b / a"] by simp_all
  have pp: "0 < pi" by simp
  consider "a > 0" | "a < 0" "b \<ge> 0" | "a < 0" "b < 0" | "a = 0" by linarith
  then show ?thesis
  proof cases
    case 1
    then show ?thesis using ar pp by (simp add: atan2_def; linarith)
  next
    case 2
    then have "b / a \<le> 0" by (simp add: divide_nonneg_neg)
    then have "arctan (b / a) \<le> 0" by (simp add: arctan_le_zero_iff)
    with 2 ar pp show ?thesis by (simp add: atan2_def; linarith)
  next
    case 3
    then have "0 < b / a" by (simp add: divide_neg_neg)
    then have "0 < arctan (b / a)" by (simp add: zero_less_arctan_iff)
    with 3 ar pp show ?thesis by (simp add: atan2_def; linarith)
  next
    case 4
    then show ?thesis using pp by (simp add: atan2_def; linarith)
  qed
qed

section \<open>What each block of the controllers leaves unchanged\<close>

lemma logMessage_frame [simp]:
  "enabled (logMessage m ap) = enabled ap"
  "rescueMode (logMessage m ap) = rescueMode ap"
  "controller.more (logMessage m ap) = controller.more ap"
  by (simp_all add: logMessage_def Let_def)

lemma logMessage_autopilot_frame [simp]:
  "burnQueue (logMessage m ap) = burnQueue ap"
  "lastBurnTime (logMessage m ap) = lastBurnTime ap"
  by (simp_all add: logMessage_def Let_def)

lemma logMessage_final_frame [simp]:
  "argumentOfPerigee (logMessage m ap) = argumentOfPerigee ap"
  by (simp_all add: logMessage_def Let_def)

lemma final_queueBurn_frame [simp]:
  "enabled (final_queueBurn d u r t ap) = enabled ap"
  "rescueMode (final_queueBurn d u r t ap) = rescueMode ap"
  "lastBurnTime (final_queueBurn d u r t ap) = lastBurnTime ap"
  "log_entries (final_queueBurn d u r t ap) = log_entries ap"
  by (simp_all add: final_queueBurn_def Let_def)

lemma final_drag_outside:
  "\<not> nearPerigee ta \<Longrightarrow> final_dragCompensation s ta ap = ap"
  by (simp add: final_dragCompensation_def Let_def)

lemma final_ecc_outside:
  "\<not> nearPerigee ta \<Longrightarrow> \<not> nearApogee ta \<Longrightarrow>
   burnQueue (final_eccControl s c ta ap) = burnQueue ap \<and>
   lastBurnTime (final_eccControl s c ta ap) = lastBurnTime ap"
  by (simp add: final_eccControl_def Let_def)

lemma final_sma_outside:
  "\<not> nearPerigee ta \<Longrightarrow> \<not> nearApogee ta \<Longrightarrow> final_smaControl s c ta ap = ap"
  by (simp add: final_smaControl_def Let_def)

lemma final_heo_outside:
  "\<not> nearPerigee ta \<Longrightarrow> final_heoControl s c ta ap = ap"
  by (simp add: final_heoControl_def Let_def)

lemma final_plan_outside:
  "\<not> nearPerigee ta \<Longrightarrow> \<not> nearApogee ta \<Longrightarrow>
   burnQueue (final_plan s c ta ap) = burnQueue ap \<and>
   lastBurnTime (final_plan s c ta ap) = lastBurnTime ap"
  by (simp add: final_plan_def Let_def final_drag_outside final_ecc_outside final_sma_outside
      final_heo_outside)



lemma dof4_queueBurn_frame [simp]:
  "enabled (dof4_queueBurn d u r t ap) = enabled ap"
  "rescueMode (dof4_queueBurn d u r t ap) = rescueMode ap"
  "lastBurnTime (dof4_queueBurn d u r t ap) = lastBurnTime ap"
  "log_entries (dof4_queueBurn d u r t ap) = log_entries ap"
  by (simp_all add: dof4_queueBurn_def Let_def)



lemma adv_queueBurn_frame [simp]:
  "enabled (adv_queueBurn d u r t ap) = enabled ap"
  "rescueMode (adv_queueBurn d u r t ap) = rescueMode ap"
  "lastBurnTime (adv_queueBurn d u r t ap) = lastBurnTime ap"
  "log_entries (adv_queueBurn d u r t ap) = log_entries ap"
  by (simp_all add: adv_queueBurn_def Let_def)

lemma smoothBurnCorrection_queue [simp]:
  "burnQueue (fst (smoothBurnCorrection d now ap)) = burnQueue ap"
  "lastBurnTime (fst (smoothBurnCorrection d now ap)) = lastBurnTime ap"
  by (simp_all add: smoothBurnCorrection_def Let_def)

lemma adv_prelude_queue:
  "burnQueue (adv_budgetWarning s c t (adv_fuelWarning c t (adv_track s t ta (adv_heartbeat nowMs ap)))) =
     burnQueue ap"
  by (simp add: adv_budgetWarning_def adv_fuelWarning_def adv_track_def adv_heartbeat_def Let_def)

lemma adv_missionSequencing_queue [simp]:
  "burnQueue (adv_missionSequencing s ap) = burnQueue ap"
  by (simp add: adv_missionSequencing_def Let_def split: option.split)


lemma adv_plane_outside:
  "\<not> nearApogee ta \<Longrightarrow> adv_controlPlaneAndInclination s ta ap = ap"
  by (simp add: adv_controlPlaneAndInclination_def Let_def)



lemma adv_omega_outside:
  "\<not> nearApogee ta \<Longrightarrow> burnQueue (adv_controlArgumentOfPerigee s ta ap) = burnQueue ap"
  by (simp add: adv_controlArgumentOfPerigee_def Let_def)





section \<open>The controller when disabled\<close>

text \<open>
  Claim C10. When the controller is disabled, \<^verbatim>\<open>update\<close> returns \<^verbatim>\<open>null\<close> at once: the
  state after the call is the state before it (burn queue, log, rescue flag, last-burn
  time and every other field), and \<^verbatim>\<open>fireThrusterCallback\<close> is not called. This holds
  for the final, the advanced, the 4-DOF and the PID variant, on every input.
\<close>

theorem update_disabled_does_nothing:
  "(\<not> enabled ap3 \<longrightarrow> final_update s c m t ap3 = (ap3, [])) \<and>
   (\<not> enabled ap2 \<longrightarrow> adv_update s c m t nowMs now drift ap2 = (ap2, [])) \<and>
   (\<not> enabled ap1 \<longrightarrow> dof4_update s omega c m t rnd ap1 = (ap1, [])) \<and>
   (\<not> enabled ap0 \<longrightarrow> pid_update s c m t nowMs ap0 = (ap0, [], Null))"
  by (simp add: final_update_def adv_update_def dof4_update_def pid_update_def)

theorem update_disabled_does_nothing_witness:
  "final_update bound_state leo_constraints 1000 500 final_init = (final_init, []) \<and>
   adv_update bound_state leo_constraints 1000 500 0 0 None adv_init = (adv_init, []) \<and>
   dof4_update bound_state 0 leo_constraints 1000 500 0 (dof4_enabled\<lparr>enabled := False\<rparr>) =
     (dof4_enabled\<lparr>enabled := False\<rparr>, []) \<and>
   pid_update bound_state leo_constraints 1000 500 0 pid_init = (pid_init, [], Null)"
proof -
  have "\<not> enabled final_init" "\<not> enabled adv_init" "\<not> enabled (dof4_enabled\<lparr>enabled := False\<rparr>)"
    "\<not> enabled pid_init"
    by (simp_all add: final_init_def adv_init_def pid_init_def)
  then show ?thesis
    using update_disabled_does_nothing [of final_init bound_state leo_constraints 1000 500
        adv_init 0 0 None "dof4_enabled\<lparr>enabled := False\<rparr>" 0 0 pid_init]
    by blast
qed

section \<open>True anomaly\<close>

lemma quadrature_anomaly: "final_trueAnomaly 0 quadrature_state = pi / 2"
  by (simp add: final_trueAnomaly_def quadrature_state_def atan2_def Let_def)


lemma quadrature_outside_windows: "\<not> nearPerigee (pi / 2) \<and> \<not> nearApogee (pi / 2)"
  using pi_gt_three by (simp add: nearPerigee_def nearApogee_def abs_real_def)

text \<open>With a reference angle in \<open>(-pi, pi]\<close>, in particular the initial value 0, the
  single wrap-around of the final and the advanced variant is enough.\<close>

lemma final_trueAnomaly_range:
  assumes "- pi < omega" "omega \<le> pi"
  shows "0 \<le> final_trueAnomaly omega s \<and> final_trueAnomaly omega s < 2 * pi"
  using assms atan2_range [of "yc (pos s)" "xc (pos s)"]
  by (simp add: final_trueAnomaly_def Let_def; linarith)

lemma js_rem_minus_six: "js_rem (- 6) (2 * pi) = - 6"
proof -
  have "- 1 < - 6 / (2 * pi)" "- 6 / (2 * pi) < 0"
    using pi_gt_three by (simp_all add: field_simps)
  then have c: "\<lceil>- 6 / (2 * pi)\<rceil> = 0" and n: "\<not> 0 \<le> - 6 / (2 * pi)"
    by (simp_all add: ceiling_eq_iff)
  have "js_rem (- 6) (2 * pi) = - 6 - 2 * pi * of_int \<lceil>- 6 / (2 * pi)\<rceil>"
    unfolding js_rem_def using n by (simp only: if_False)
  then show ?thesis
    by (simp only: c of_int_0 mult_zero_right diff_zero)
qed

text \<open>
  Claim C9 at a failing input. \<^verbatim>\<open>setArgumentOfPerigee(-6)\<close> stores \<open>-6\<close> (the
  remainder of \<open>-6\<close> by \<open>2 pi\<close>). For a satellite on the positive y axis
  (\<^verbatim>\<open>atan2\<close> is \<open>pi / 2\<close>) the final variant, which only adds \<open>2 pi\<close> to a negative
  difference, returns \<open>pi / 2 + 6\<close>, which is more than \<open>2 pi\<close> and so outside
  \<open>[0, 2 pi)\<close>. The 4-DOF variant, which also subtracts \<open>2 pi\<close> from a difference
  above \<open>2 pi\<close>, returns \<open>pi / 2 + 6 - 2 pi\<close> there. With the reference angle 6 and a
  satellite on the negative y axis the final variant returns a negative angle.
\<close>

theorem final_trueAnomaly_not_normalized:
  "argumentOfPerigee (final_setArgumentOfPerigee (- 6) final_init) = - 6 \<and>
   final_trueAnomaly (- 6) quadrature_state = pi / 2 + 6 \<and>
   2 * pi \<le> final_trueAnomaly (- 6) quadrature_state \<and>
   dof4_trueAnomaly (- 6) quadrature_state = pi / 2 + 6 - 2 * pi \<and>
   final_trueAnomaly 6 south_state < 0"
proof (intro conjI)
  show "argumentOfPerigee (final_setArgumentOfPerigee (- 6) final_init) = - 6"
    by (simp add: final_setArgumentOfPerigee_def js_rem_minus_six)
  have a: "atan2 7000000 0 = pi / 2"
    by (simp add: atan2_def)
  show v: "final_trueAnomaly (- 6) quadrature_state = pi / 2 + 6"
    using pi_gt_zero by (simp add: final_trueAnomaly_def quadrature_state_def Let_def a; linarith)
  show "2 * pi \<le> final_trueAnomaly (- 6) quadrature_state"
    unfolding v using pi_less_4 by linarith
  have "2 * pi < pi / 2 + 6"
    using pi_less_4 by linarith
  then show "dof4_trueAnomaly (- 6) quadrature_state = pi / 2 + 6 - 2 * pi"
    using pi_gt_zero by (simp add: dof4_trueAnomaly_def quadrature_state_def Let_def a; linarith)
  have "atan2 (- 7000000) 0 = - (pi / 2)"
    by (simp add: atan2_def)
  then have "final_trueAnomaly 6 south_state = - (pi / 2) - 6 + 2 * pi"
    using pi_gt_zero by (simp add: final_trueAnomaly_def south_state_def Let_def; linarith)
  then show "final_trueAnomaly 6 south_state < 0"
    using pi_less_4 by linarith
qed

section \<open>Enabling and disabling\<close>

text \<open>
  Claim C7, as the code has it. \<^verbatim>\<open>setEnabled\<close> sets the flag and writes a log entry. In
  the final and the advanced variant it changes nothing else, whichever value it is given:
  the burn queue, the last-burn time, the rescue flag, the reference angle, the smoothing
  buffer and the last-correction time are as before. In the PID variant
  \<^verbatim>\<open>setEnabled(false)\<close> leaves both PID records and the last-correction time as they
  are; it is \<^verbatim>\<open>setEnabled(true)\<close> that calls \<^verbatim>\<open>resetPID()\<close>, which zeroes the integral
  and the last error of both records.
\<close>

theorem setEnabled_resets_nothing:
  "burnQueue (final_setEnabled v ap3) = burnQueue ap3 \<and>
   lastBurnTime (final_setEnabled v ap3) = lastBurnTime ap3 \<and>
   rescueMode (final_setEnabled v ap3) = rescueMode ap3 \<and>
   argumentOfPerigee (final_setEnabled v ap3) = argumentOfPerigee ap3 \<and>
   enabled (final_setEnabled v ap3) = v \<and>
   burnQueue (adv_setEnabled v ap2) = burnQueue ap2 \<and>
   lastBurnTime (adv_setEnabled v ap2) = lastBurnTime ap2 \<and>
   rescueMode (adv_setEnabled v ap2) = rescueMode ap2 \<and>
   burnSmoothingBuffer (adv_setEnabled v ap2) = burnSmoothingBuffer ap2 \<and>
   adv_lastCorrectionTime (adv_setEnabled v ap2) = adv_lastCorrectionTime ap2 \<and>
   enabled (adv_setEnabled v ap2) = v \<and>
   altitudePID (pid_setEnabled False ap0) = altitudePID ap0 \<and>
   velocityPID (pid_setEnabled False ap0) = velocityPID ap0 \<and>
   lastCorrectionTime (pid_setEnabled False ap0) = lastCorrectionTime ap0 \<and>
   rescueMode (pid_setEnabled v ap0) = rescueMode ap0 \<and>
   enabled (pid_setEnabled v ap0) = v \<and>
   altitudePID (pid_setEnabled True ap0) = (altitudePID ap0)\<lparr>integral := 0, lastError := 0\<rparr> \<and>
   velocityPID (pid_setEnabled True ap0) = (velocityPID ap0)\<lparr>integral := 0, lastError := 0\<rparr>"
  by (simp add: final_setEnabled_def adv_setEnabled_def pid_setEnabled_def resetPID_def
      logMessage_def Let_def)

lemma final_execute_calls:
  assumes "burnQueue ap = b # rest" "t - lastBurnTime ap > 120"
  shows "snd (final_execute s t ap) =
     [\<lparr> call_dv = burn_dv b *
          (if xc (burn_dir b) * (xc (vel s) / (if hypot (xc (vel s)) (yc (vel s)) = 0 then 1
                                               else hypot (xc (vel s)) (yc (vel s)))) +
              yc (burn_dir b) * (yc (vel s) / (if hypot (xc (vel s)) (yc (vel s)) = 0 then 1
                                               else hypot (xc (vel s)) (yc (vel s)))) \<ge> 0
           then 1 else - 1),
        call_thruster = Some (burn_thruster b), call_dir = None \<rparr>]"
  using assms by (simp add: final_execute_def Let_def)

text \<open>
  Claim C7 as the specification states it fails: a burn that was queued before
  \<^verbatim>\<open>setEnabled(false)\<close> is still queued after it, and after \<^verbatim>\<open>setEnabled(true)\<close> the
  next \<^verbatim>\<open>update\<close> fires it, here a quarter turn from perigee, where the controller
  queues nothing itself.
\<close>

theorem stale_burn_fires_after_reenabling:
  "burnQueue (final_setEnabled False final_queued) = [stale_burn] \<and>
   snd (final_update quadrature_state leo_constraints 1000 1000
          (final_setEnabled True (final_setEnabled False final_queued))) =
     [\<lparr> call_dv = 2, call_thruster = Some ''electric'', call_dir = None \<rparr>]"
proof
  let ?ap = "final_setEnabled True (final_setEnabled False final_queued)"
  show q0: "burnQueue (final_setEnabled False final_queued) = [stale_burn]"
    by (simp add: final_setEnabled_def final_queued_def)
  have e: "enabled ?ap" and q: "burnQueue ?ap = [stale_burn]" and l: "lastBurnTime ?ap = 0"
    and w: "argumentOfPerigee ?ap = 0"
    by (simp_all add: final_setEnabled_def final_queued_def final_init_def)
  let ?p = "final_plan quadrature_state leo_constraints (pi / 2) ?ap"
  have p: "burnQueue ?p = stale_burn # []" "1000 - lastBurnTime ?p > 120"
    using final_plan_outside [of "pi / 2" quadrature_state leo_constraints ?ap]
      quadrature_outside_windows q l by simp_all
  have "snd (final_update quadrature_state leo_constraints 1000 1000 ?ap) =
        snd (final_execute quadrature_state 1000 ?p)"
    using e w by (simp add: final_update_def quadrature_anomaly Let_def)
  also have "\<dots> = [\<lparr> call_dv = 2, call_thruster = Some ''electric'', call_dir = None \<rparr>]"
    by (subst final_execute_calls [OF p])
       (simp add: quadrature_state_def stale_burn_def hypot_def)
  finally show "snd (final_update quadrature_state leo_constraints 1000 1000 ?ap) =
     [\<lparr> call_dv = 2, call_thruster = Some ''electric'', call_dir = None \<rparr>]" .
qed

section \<open>Burn windows\<close>

lemma dof4_queuePerturbation_frame [simp]:
  "lastBurnTime (dof4_queuePerturbation p r t ap) = lastBurnTime ap"
  by (simp add: dof4_queuePerturbation_def split: option.split)

lemma dof4_blocks_lastBurnTime [simp]:
  "lastBurnTime (dof4_dragCompensation s ta ap) = lastBurnTime ap"
  "lastBurnTime (dof4_j2Compensation s ta ap) = lastBurnTime ap"
  "lastBurnTime (dof4_thirdBodyCompensation s ta t rnd ap) = lastBurnTime ap"
  "lastBurnTime (dof4_srpCompensation s ta m ap) = lastBurnTime ap"
  "lastBurnTime (dof4_eccControl s c ta ap) = lastBurnTime ap"
  "lastBurnTime (dof4_smaControl s c ta ap) = lastBurnTime ap"
  "lastBurnTime (dof4_molniyaControl s c ta ap) = lastBurnTime ap"
  by (simp_all add: dof4_dragCompensation_def dof4_j2Compensation_def
      dof4_thirdBodyCompensation_def dof4_srpCompensation_def dof4_eccControl_def
      dof4_smaControl_def dof4_molniyaControl_def Let_def)








section \<open>Chunking of large requests\<close>

lemma adv_queueChunks_stop:
  "\<not> remaining > 1 / 10000 \<Longrightarrow> adv_queueChunks remaining sign unitDir rsn thr q = q"
  by (subst adv_queueChunks.simps) simp

lemma adv_queueChunks_step:
  "remaining > 1 / 10000 \<Longrightarrow>
   adv_queueChunks remaining sign unitDir rsn thr q =
   adv_queueChunks (remaining - min remaining 2) sign unitDir rsn thr
     (if \<not> list_ex (chunkDuplicate (min remaining 2 * sign) unitDir
                      (if remaining = min remaining 2 then rsn
                       else rsn @ '' ('' @ toFixed (min remaining 2) 2 @ '' m/s)'')) q
      then q @ [\<lparr> burn_dv = min remaining 2 * sign, burn_dir = unitDir,
                   burn_reason = (if remaining = min remaining 2 then rsn
                                  else rsn @ '' ('' @ toFixed (min remaining 2) 2 @ '' m/s)''),
                   burn_thruster = thr \<rparr>]
      else q)"
  by (subst adv_queueChunks.simps) (simp add: Let_def)

lemma toFixed_two: "toFixed 2 2 = ''2.00''"
  by (simp add: toFixed_eval)

text \<open>What the chunking does right: a request between 2.0001 and 4 m/s put on an empty
  queue becomes two requests that add up to the request.\<close>

lemma adv_queueBurn_two_chunks:
  assumes "2 + 1 / 10000 < d" "d \<le> 4" "burnQueue ap = []"
  shows "burnQueue (adv_queueBurn d east rsn thr ap) =
     [\<lparr> burn_dv = 2, burn_dir = east, burn_reason = rsn @ '' (2.00 m/s)'', burn_thruster = thr \<rparr>,
      \<lparr> burn_dv = d - 2, burn_dir = east, burn_reason = rsn, burn_thruster = thr \<rparr>]"
proof -
  have u: "\<lparr> xc = xc east / hypot (xc east) (yc east), yc = yc east / hypot (xc east) (yc east) \<rparr> = east"
    by (simp add: east_def hypot_def)
  have h: "hypot (xc east) (yc east) \<noteq> 0"
    by (simp add: east_def hypot_def)
  have "adv_queueChunks d 1 east rsn thr [] =
        adv_queueChunks (d - 2) 1 east rsn thr
          [\<lparr> burn_dv = 2, burn_dir = east, burn_reason = rsn @ '' (2.00 m/s)'', burn_thruster = thr \<rparr>]"
    using assms(1) by (subst adv_queueChunks_step) (simp_all add: toFixed_two min_def)
  also have "\<dots> = adv_queueChunks 0 1 east rsn thr
          [\<lparr> burn_dv = 2, burn_dir = east, burn_reason = rsn @ '' (2.00 m/s)'', burn_thruster = thr \<rparr>,
           \<lparr> burn_dv = d - 2, burn_dir = east, burn_reason = rsn, burn_thruster = thr \<rparr>]"
    using assms(1,2) by (subst adv_queueChunks_step) (simp_all add: min_def chunkDuplicate_def)
  also have "\<dots> = [\<lparr> burn_dv = 2, burn_dir = east, burn_reason = rsn @ '' (2.00 m/s)'', burn_thruster = thr \<rparr>,
           \<lparr> burn_dv = d - 2, burn_dir = east, burn_reason = rsn, burn_thruster = thr \<rparr>]"
    by (simp add: adv_queueChunks_stop)
  finally show ?thesis
    using assms h by (simp add: adv_queueBurn_def Let_def u)
qed

text \<open>
  Claim C3. A request larger than the maximum chunk of 2 m/s, put on an empty queue, should
  become several requests of at most 2 m/s each that add up to the request. The loop of
  \<^verbatim>\<open>queueBurn\<close> labels every chunk but the last with the same text
  \<^verbatim>\<open>reason (2.00 m/s)\<close> and skips a chunk when the queue already holds a request
  with the same label, direction and size, so the second full chunk of one call is taken for a
  duplicate of the first: \<^verbatim>\<open>queueBurn(6, {x: 1, y: 0}, "SMA fix: 12.0 km", "electric")\<close>
  on the empty queue leaves two requests of 2 m/s, 4 m/s in all.
\<close>

theorem adv_queueBurn_drops_a_chunk:
  "burnQueue adv_init = [] \<and>
   burnQueue (adv_queueBurn 6 east ''SMA fix: 12.0 km'' ''electric'' adv_init) =
     [\<lparr> burn_dv = 2, burn_dir = east, burn_reason = ''SMA fix: 12.0 km (2.00 m/s)'',
        burn_thruster = ''electric'' \<rparr>,
      \<lparr> burn_dv = 2, burn_dir = east, burn_reason = ''SMA fix: 12.0 km'',
        burn_thruster = ''electric'' \<rparr>] \<and>
   sum_list (map burn_dv (burnQueue (adv_queueBurn 6 east ''SMA fix: 12.0 km'' ''electric'' adv_init))) = 4"
proof -
  have q: "burnQueue (adv_queueBurn 6 east ''SMA fix: 12.0 km'' ''electric'' adv_init) =
     [\<lparr> burn_dv = 2, burn_dir = east, burn_reason = ''SMA fix: 12.0 km (2.00 m/s)'',
        burn_thruster = ''electric'' \<rparr>,
      \<lparr> burn_dv = 2, burn_dir = east, burn_reason = ''SMA fix: 12.0 km'',
        burn_thruster = ''electric'' \<rparr>]"
    by (simp add: adv_queueBurn_def adv_init_def east_def hypot_def Let_def
        adv_queueChunks_step adv_queueChunks_stop chunkDuplicate_def toFixed_two)
  show ?thesis
    unfolding q by (simp add: adv_init_def)
qed

section \<open>Eccentricity before semi-major axis\<close>

lemma getEccentricity_nonneg: "0 \<le> getEccentricity s"
  by (simp add: getEccentricity_def Let_def)

text \<open>The eccentricity of a state at an apsis on the x axis.\<close>

lemma apsis_eccentricity:
  assumes "a \<noteq> 0" "w\<^sup>2 / 2 - mu_earth / \<bar>a\<bar> < 0"
  shows "getEccentricity \<lparr> pos = \<lparr> xc = a, yc = 0 \<rparr>, vel = \<lparr> xc = 0, yc = w \<rparr> \<rparr> =
         \<bar>1 - \<bar>a\<bar> * w\<^sup>2 / mu_earth\<bar>"
proof -
  let ?s = "\<lparr> pos = \<lparr> xc = a, yc = 0 \<rparr>, vel = \<lparr> xc = 0, yc = w \<rparr> \<rparr>"
  have mu: "0 < mu_earth" by (simp add: mu_earth_def)
  have rad: "radius ?s = \<bar>a\<bar>"
    by (simp add: radius_def hypot_def)
  have en: "orbitEnergy ?s = w\<^sup>2 / 2 - mu_earth / \<bar>a\<bar>"
    by (simp add: orbitEnergy_def rad Let_def)
  have am: "angularMomentum ?s = \<bar>a\<bar> * \<bar>w\<bar>"
    by (simp add: angularMomentum_def abs_mult)
  have "1 - (\<bar>a\<bar> * \<bar>w\<bar> * (\<bar>a\<bar> * \<bar>w\<bar>) / mu_earth) / (- mu_earth / (2 * (w\<^sup>2 / 2 - mu_earth / \<bar>a\<bar>))) =
        (1 - \<bar>a\<bar> * w\<^sup>2 / mu_earth)\<^sup>2"
    using assms(1) mu by (simp add: field_simps power2_eq_square)
  then have "sqrt (max 0 (1 - (\<bar>a\<bar> * \<bar>w\<bar> * (\<bar>a\<bar> * \<bar>w\<bar>) / mu_earth) / (- mu_earth / (2 * (w\<^sup>2 / 2 - mu_earth / \<bar>a\<bar>))))) =
        \<bar>1 - \<bar>a\<bar> * w\<^sup>2 / mu_earth\<bar>"
    by simp
  then show ?thesis
    using assms(2) by (simp add: getEccentricity_def en am Let_def)
qed

lemma apogee_state_ecc: "getEccentricity apogee_state = \<bar>1 - 6800000 * 7641\<^sup>2 / mu_earth\<bar>"
  unfolding apogee_state_def
  using apsis_eccentricity [of "- 6800000" "- 7641"] by (simp add: mu_earth_def)

lemma apogee_state_ecc_bounds:
  "39 / 10000 < getEccentricity apogee_state \<and> getEccentricity apogee_state < 4 / 1000"
  unfolding apogee_state_ecc by (simp add: mu_earth_def)

lemma round_state_ecc_bounds:
  "5 / 100000 < getEccentricity round_state \<and> getEccentricity round_state < 6 / 100000"
proof -
  have "getEccentricity round_state = \<bar>1 - 7085840 * 7500\<^sup>2 / mu_earth\<bar>"
    unfolding round_state_def
    using apsis_eccentricity [of "- 7085840" "- 7500"] by (simp add: mu_earth_def)
  then show ?thesis by (simp add: mu_earth_def)
qed

lemma round_state_sma_bounds:
  "7085000 < getSMA round_state \<and> getSMA round_state < 7086000"
  by (simp add: getSMA_def orbitEnergy_def radius_def hypot_def round_state_def mu_earth_def Let_def)

lemma apogee_anomaly: "final_trueAnomaly 0 apogee_state = pi" "final_trueAnomaly 0 round_state = pi"
  by (simp_all add: final_trueAnomaly_def apogee_state_def round_state_def atan2_def Let_def)

lemma apogee_windows: "nearApogee pi" "\<not> nearPerigee pi"
  using pi_gt_three by (simp_all add: nearApogee_def nearPerigee_def)


lemma final_queueBurn_cases:
  "(burnQueue (final_queueBurn d u rsn thr ap) = burnQueue ap \<and>
      (d \<le> 2 / 10 \<or> list_ex (\<lambda>b. burn_reason b = rsn) (burnQueue ap))) \<or>
   burnQueue (final_queueBurn d u rsn thr ap) =
     burnQueue ap @ [\<lparr> burn_dv = d, burn_dir = u, burn_reason = rsn, burn_thruster = thr \<rparr>]"
  by (auto simp add: final_queueBurn_def Let_def list_ex_iff)

lemma final_drag_adds:
  "\<exists>N. burnQueue (final_dragCompensation s ta ap) = burnQueue ap @ N \<and> \<not> list_ex is_sma_fix N"
proof -
  have "\<exists>N. burnQueue (final_queueBurn d u (''Drag reboost +'' @ x) thr ap) = burnQueue ap @ N \<and>
            \<not> list_ex is_sma_fix N" for d u x thr
    using final_queueBurn_cases [of d u "''Drag reboost +'' @ x" thr ap]
    by (auto simp add: is_sma_fix_def)
  then show ?thesis
    by (simp add: final_dragCompensation_def Let_def)
qed

lemma final_ecc_adds:
  assumes "nearPerigee ta \<or> nearApogee ta"
    and "getEccentricity s > js_or (map_option warning (eccentricity c)) (1 / 1000) * (8 / 10)"
    and "min (getEccentricity s * 2000) 12 > 2 / 10"
  shows "\<exists>N. burnQueue (final_eccControl s c ta ap) = burnQueue ap @ N \<and>
             \<not> list_ex is_sma_fix N \<and> list_ex is_ecc_fix (burnQueue ap @ N)"
proof -
  have k: "\<exists>N. burnQueue (final_queueBurn (min (getEccentricity s * 2000) 12) u (''Ecc fix: '' @ x) thr ap) =
                 burnQueue ap @ N \<and>
            \<not> list_ex is_sma_fix N \<and> list_ex is_ecc_fix (burnQueue ap @ N)" for u x thr
  proof -
    let ?q = "burnQueue (final_queueBurn (min (getEccentricity s * 2000) 12) u (''Ecc fix: '' @ x) thr ap)"
    let ?b = "\<lparr> burn_dv = min (getEccentricity s * 2000) 12, burn_dir = u,
                burn_reason = ''Ecc fix: '' @ x, burn_thruster = thr \<rparr>"
    consider "?q = burnQueue ap" "list_ex (\<lambda>b. burn_reason b = ''Ecc fix: '' @ x) (burnQueue ap)"
      | "?q = burnQueue ap @ [?b]"
      using final_queueBurn_cases [of "min (getEccentricity s * 2000) 12" u "''Ecc fix: '' @ x" thr ap]
        assms(3)
      by fastforce
    then show ?thesis
    proof cases
      case 1
      from 1(2) obtain b where "b \<in> set (burnQueue ap)" "burn_reason b = ''Ecc fix: '' @ x"
        by (auto simp add: list_ex_iff)
      then have "b \<in> set (burnQueue ap)" "is_ecc_fix b"
        by (simp_all add: is_ecc_fix_def)
      then have "list_ex is_ecc_fix (burnQueue ap @ [])"
        unfolding list_ex_iff by auto
      moreover have "?q = burnQueue ap @ []"
        using 1(1) by simp
      moreover have "\<not> list_ex is_sma_fix []"
        by simp
      ultimately show ?thesis
        by blast
    next
      case 2
      have "list_ex is_ecc_fix (burnQueue ap @ [?b])"
        by (simp add: is_ecc_fix_def)
      moreover have "\<not> list_ex is_sma_fix [?b]"
        by (simp add: is_sma_fix_def)
      ultimately show ?thesis
        using 2 by blast
    qed
  qed
  show ?thesis
  proof (cases "nearApogee ta")
    case True
    then have "burnQueue (final_eccControl s c ta ap) =
        burnQueue (final_queueBurn (min (getEccentricity s * 2000) 12) (retrogradeUnit s)
          (''Ecc fix: '' @ ''retro at apogee (e='' @ toFixed (getEccentricity s) 4 @ '')'') ''electric'' ap)"
      using assms(2) by (simp add: final_eccControl_def Let_def)
    then show ?thesis
      using k by (simp only:)
  next
    case False
    then have "nearPerigee ta"
      using assms(1) by simp
    with False have "burnQueue (final_eccControl s c ta ap) =
        burnQueue (final_queueBurn (min (getEccentricity s * 2000) 12) (progradeUnit s)
          (''Ecc fix: '' @ ''pro at perigee (e='' @ toFixed (getEccentricity s) 4 @ '')'') ''electric'' ap)"
      using assms(2) by (simp add: final_eccControl_def Let_def)
    then show ?thesis
      using k by (simp only:)
  qed
qed

lemma final_sma_adds:
  "\<exists>S. burnQueue (final_smaControl s c ta ap) = burnQueue ap @ S \<and> list_all is_sma_fix S"
proof -
  have "\<exists>S. burnQueue (final_queueBurn d u (''SMA fix: '' @ x) thr ap) = burnQueue ap @ S \<and>
            list_all is_sma_fix S" for d u x thr
    using final_queueBurn_cases [of d u "''SMA fix: '' @ x" thr ap]
    by (auto simp add: is_sma_fix_def)
  then show ?thesis
    by (simp add: final_smaControl_def Let_def)
qed

lemma final_sma_gated:
  "js_or (map_option warning (eccentricity c)) (1 / 1000) * (12 / 10) \<le> getEccentricity s \<Longrightarrow>
   final_smaControl s c ta ap = ap"
  by (simp add: final_smaControl_def Let_def)

lemma adv_sma_gated:
  "js_or (map_option warning (eccentricity c)) (1 / 1000) * (12 / 10) \<le> getEccentricity s \<Longrightarrow>
   adv_smaControl s c ta m t now ap = ap"
  by (simp add: adv_smaControl_def Let_def)

text \<open>
  Claim C8, as the code has it. In the circular regime, on a tick where the eccentricity is
  above its warning threshold: if the satellite is in a burn window and the eccentricity is
  above 0.0001 (so that the correction of \<open>min (2000 e) 12\<close> m/s is above the 0.2 m/s
  floor of \<^verbatim>\<open>queueBurn\<close>), the queue after planning is the old queue, then
  requests none of which is a semi-major-axis correction, then only semi-major-axis
  corrections, and an eccentricity correction stands before those; outside the burn windows
  nothing is queued at all; and the semi-major-axis block does nothing unless the eccentricity
  is below 1.2 times the warning threshold (in the final and in the advanced controller).
\<close>

theorem eccentricity_before_sma:
  assumes "\<not> isMolniya c"
    and "js_or (map_option warning (eccentricity c)) (1 / 1000) < getEccentricity s"
  shows "(1 / 10000 < getEccentricity s \<and> (nearPerigee ta \<or> nearApogee ta) \<longrightarrow>
           (\<exists>N S. burnQueue (final_plan s c ta ap) = burnQueue ap @ N @ S \<and>
                  list_ex is_ecc_fix (burnQueue ap @ N) \<and> \<not> list_ex is_sma_fix N \<and>
                  list_all is_sma_fix S)) \<and>
         (\<not> nearPerigee ta \<and> \<not> nearApogee ta \<longrightarrow> burnQueue (final_plan s c ta ap) = burnQueue ap) \<and>
         (js_or (map_option warning (eccentricity c)) (1 / 1000) * (12 / 10) \<le> getEccentricity s \<longrightarrow>
           final_smaControl s c ta ap = ap \<and> adv_smaControl s c ta m t now ap2 = ap2)"
proof (intro conjI impI)
  assume w: "1 / 10000 < getEccentricity s \<and> (nearPerigee ta \<or> nearApogee ta)"
  let ?th = "js_or (map_option warning (eccentricity c)) (1 / 1000)"
  let ?a1 = "final_dragCompensation s ta ap"
  let ?a2 = "final_eccControl s c ta ?a1"
  have e0: "0 \<le> getEccentricity s" by (rule getEccentricity_nonneg)
  have e8: "getEccentricity s > ?th * (8 / 10)"
    using assms(2) e0 by linarith
  have bs: "min (getEccentricity s * 2000) 12 > 2 / 10"
    using w by simp
  obtain N0 where n0: "burnQueue ?a1 = burnQueue ap @ N0" "\<not> list_ex is_sma_fix N0"
    using final_drag_adds by blast
  obtain N1 where n1: "burnQueue ?a2 = burnQueue ?a1 @ N1" "\<not> list_ex is_sma_fix N1"
      "list_ex is_ecc_fix (burnQueue ?a1 @ N1)"
    using final_ecc_adds [where ta = ta and s = s and c = c and ap = ?a1] w e8 bs by blast
  obtain S where s: "burnQueue (final_smaControl s c ta ?a2) = burnQueue ?a2 @ S" "list_all is_sma_fix S"
    using final_sma_adds by blast
  have p: "final_plan s c ta ap = final_smaControl s c ta ?a2"
    using assms(1) by (simp add: final_plan_def Let_def)
  have "burnQueue (final_plan s c ta ap) = burnQueue ap @ (N0 @ N1) @ S"
    by (simp add: p s n1 n0)
  moreover have "list_ex is_ecc_fix (burnQueue ap @ (N0 @ N1))"
    using n1(3) by (simp add: n0)
  moreover have "\<not> list_ex is_sma_fix (N0 @ N1)"
    using n0(2) n1(2) by (auto simp add: list_ex_iff)
  ultimately show "\<exists>N S. burnQueue (final_plan s c ta ap) = burnQueue ap @ N @ S \<and>
                  list_ex is_ecc_fix (burnQueue ap @ N) \<and> \<not> list_ex is_sma_fix N \<and>
                  list_all is_sma_fix S"
    using s(2) by blast
next
  assume "\<not> nearPerigee ta \<and> \<not> nearApogee ta"
  then show "burnQueue (final_plan s c ta ap) = burnQueue ap"
    using final_plan_outside by blast
next
  assume g: "js_or (map_option warning (eccentricity c)) (1 / 1000) * (12 / 10) \<le> getEccentricity s"
  then show "final_smaControl s c ta ap = ap"
    by (rule final_sma_gated)
  from g show "adv_smaControl s c ta m t now ap2 = ap2"
    by (rule adv_sma_gated)
qed


text \<open>
  The scenario of the specification: 400 km constraints (warning threshold 0.0005) and a
  satellite at the apogee of an orbit of eccentricity 0.0039, and the same orbit seen a
  quarter of a revolution from the perigee.
\<close>

theorem eccentricity_before_sma_witness:
  "(\<exists>N S. burnQueue (final_plan apogee_state leo_constraints pi final_enabled) =
            burnQueue final_enabled @ N @ S \<and>
          list_ex is_ecc_fix (burnQueue final_enabled @ N) \<and> \<not> list_ex is_sma_fix N \<and>
          list_all is_sma_fix S) \<and>
   burnQueue (final_plan apogee_state leo_constraints (pi / 2) final_enabled) = burnQueue final_enabled \<and>
   final_smaControl apogee_state leo_constraints pi final_enabled = final_enabled \<and>
   adv_smaControl apogee_state leo_constraints pi 1000 0 0 adv_init = adv_init"
proof -
  have c: "\<not> isMolniya leo_constraints"
    by (simp add: isMolniya_def leo_constraints_def)
  have th: "js_or (map_option warning (eccentricity leo_constraints)) (1 / 1000) = 5 / 10000"
    by (simp add: js_or_def leo_constraints_def)
  have e: "js_or (map_option warning (eccentricity leo_constraints)) (1 / 1000) < getEccentricity apogee_state"
    unfolding th using apogee_state_ecc_bounds by linarith
  have e4: "1 / 10000 < getEccentricity apogee_state"
    using apogee_state_ecc_bounds by linarith
  have g: "js_or (map_option warning (eccentricity leo_constraints)) (1 / 1000) * (12 / 10)
             \<le> getEccentricity apogee_state"
    unfolding th using apogee_state_ecc_bounds by linarith
  note t1 = eccentricity_before_sma [OF c e, of pi final_enabled 1000 0 0 adv_init]
  note t2 = eccentricity_before_sma [OF c e, of "pi / 2" final_enabled 1000 0 0 adv_init]
  show ?thesis
    using t1 t2 e4 g apogee_windows quadrature_outside_windows by blast
qed

lemma final_queueBurn_empty:
  "d > 2 / 10 \<Longrightarrow> burnQueue ap = [] \<Longrightarrow>
   burnQueue (final_queueBurn d u rsn thr ap) =
     [\<lparr> burn_dv = d, burn_dir = u, burn_reason = rsn, burn_thruster = thr \<rparr>]"
  by (simp add: final_queueBurn_def Let_def)

text \<open>
  Claim C8 as the specification words it fails. With a warning threshold of 0.00005 and an
  eccentricity of 0.000055 (above the threshold) at apogee, the eccentricity correction of
  0.11 m/s is below the 0.2 m/s floor and is not queued, while the semi-major-axis block
  (the eccentricity is below 1.2 times the threshold) queues its correction: the queue holds
  a semi-major-axis burn and no eccentricity burn.
\<close>

theorem sma_burn_without_eccentricity_burn:
  "\<not> isMolniya tight_constraints \<and>
   js_or (map_option warning (eccentricity tight_constraints)) (1 / 1000) < getEccentricity round_state \<and>
   final_trueAnomaly (argumentOfPerigee final_enabled) round_state = pi \<and>
   burnQueue final_enabled = [] \<and>
   list_ex is_sma_fix (burnQueue (final_plan round_state tight_constraints pi final_enabled)) \<and>
   \<not> list_ex is_ecc_fix (burnQueue (final_plan round_state tight_constraints pi final_enabled))"
proof -
  have c: "\<not> isMolniya tight_constraints"
    by (simp add: isMolniya_def tight_constraints_def leo_constraints_def)
  have th: "js_or (map_option warning (eccentricity tight_constraints)) (1 / 1000) = 5 / 100000"
    and vi: "js_or (map_option violation (eccentricity tight_constraints)) (5 / 1000) = 2 / 1000"
    and al: "js_or (map_option warning (altitude_km tight_constraints)) 5 = 5"
    and tg: "targetAlt tight_constraints = 400"
    by (simp_all add: js_or_def tight_constraints_def leo_constraints_def)
  have eb: "5 / 100000 < getEccentricity round_state" "getEccentricity round_state < 6 / 100000"
    using round_state_ecc_bounds by simp_all
  have sb: "7085000 < getSMA round_state" "getSMA round_state < 7086000"
    using round_state_sma_bounds by simp_all
  have q0: "burnQueue final_enabled = []"
    by (simp add: final_enabled_def final_init_def)
  have d: "final_dragCompensation round_state pi final_enabled = final_enabled"
    using apogee_windows by (simp add: final_drag_outside)
  have small: "\<not> min (getEccentricity round_state * 2000) 12 > 2 / 10"
    using eb by simp
  have ec: "final_eccControl round_state tight_constraints pi final_enabled = final_enabled"
    using eb small apogee_windows
    by (simp add: final_eccControl_def Let_def final_queueBurn_def js_or_def tight_constraints_def
        leo_constraints_def)
  let ?err = "(getSMA round_state - (earthRadius + 400 * 1000)) / 1000"
  have er: "314 < ?err" "?err < 316"
    using sb by (simp_all add: earthRadius_def)
  have big: "\<bar>?err * (5 / 10)\<bar> > 2 / 10"
    using er by simp
  have "burnQueue (final_smaControl round_state tight_constraints pi final_enabled) =
          burnQueue (final_queueBurn \<bar>?err * (5 / 10)\<bar> (progradeUnit round_state)
                       (''SMA fix: '' @ toFixed ?err 1 @ '' km'') ''chemical'' final_enabled)"
    using eb er apogee_windows
    by (simp add: final_smaControl_def Let_def js_or_def tight_constraints_def leo_constraints_def)
  then have "burnQueue (final_smaControl round_state tight_constraints pi final_enabled) =
       [\<lparr> burn_dv = \<bar>?err * (5 / 10)\<bar>, burn_dir = progradeUnit round_state,
          burn_reason = ''SMA fix: '' @ toFixed ?err 1 @ '' km'', burn_thruster = ''chemical'' \<rparr>]"
    by (simp only: final_queueBurn_empty [OF big q0])
  moreover have "final_plan round_state tight_constraints pi final_enabled =
        final_smaControl round_state tight_constraints pi final_enabled"
    using c by (simp add: final_plan_def Let_def d ec)
  ultimately have "list_ex is_sma_fix (burnQueue (final_plan round_state tight_constraints pi final_enabled))"
    and "\<not> list_ex is_ecc_fix (burnQueue (final_plan round_state tight_constraints pi final_enabled))"
    by (simp_all add: is_sma_fix_def is_ecc_fix_def)
  moreover have "final_trueAnomaly (argumentOfPerigee final_enabled) round_state = pi"
    by (simp add: final_enabled_def final_init_def apogee_anomaly)
  ultimately show ?thesis
    using c th eb q0 by simp
qed

section \<open>Fuel gating\<close>

text \<open>The low orbit used below, and the thruster selection with empty tanks.\<close>

lemma skimming_ecc_bounds:
  "getEccentricity skimming_state < 3 / 100000"
proof -
  have "getEccentricity skimming_state = \<bar>1 - \<bar>6500000\<bar> * 7831\<^sup>2 / mu_earth\<bar>"
    unfolding skimming_state_def
    using apsis_eccentricity [of 6500000 7831] by (simp add: mu_earth_def)
  then show ?thesis by (simp add: mu_earth_def)
qed

lemma skimming_sma_bounds:
  "6500000 < getSMA skimming_state \<and> getSMA skimming_state < 6501000"
  by (simp add: getSMA_def orbitEnergy_def radius_def hypot_def skimming_state_def mu_earth_def Let_def)

lemma skimming_altitude: "altitudeKm_of skimming_state = 129"
  by (simp add: altitudeKm_of_def radius_def hypot_def skimming_state_def earthRadius_def)

lemma skimming_anomaly: "final_trueAnomaly 0 skimming_state = 0"
  by (simp add: final_trueAnomaly_def skimming_state_def atan2_def Let_def)

lemma perigee_windows: "nearPerigee 0" "\<not> nearApogee 0"
  using pi_gt_three by (simp_all add: nearApogee_def nearPerigee_def)

lemma empty_tanks_fuel: "fuel_of (inventory_of dry_constraints) k = 0"
  "fuel_of (inventory_of skimming_constraints) k = 0"
  by (simp_all add: fuel_of_def inventory_of_def dry_constraints_def skimming_constraints_def
      empty_tanks_def js_or_def)

lemma selectBestThruster_no_fuel:
  assumes "\<And>k. fuel_of prop k = 0"
  shows "selectBestThruster m prop dv ne =
     \<lparr> chosen = None, canExecute = False,
       choice_reason = ''[ALARM] OUT OF FUEL - All propellant tanks empty!'' \<rparr>"
  by (simp add: selectBestThruster_def assms thruster_table_def)


text \<open>What the three fuel-checked blocks of the advanced controller do when the thruster
  selection reports that the burn cannot be executed.\<close>

lemma adv_ecc_without_fuel:
  assumes "js_or (map_option warning (eccentricity c)) (1 / 1000) * (8 / 10) < getEccentricity s"
    and "\<not> canExecute (selectBestThruster m (inventory_of c) (min (getEccentricity s * 2000) 12) False)"
  shows "burnQueue (adv_eccControl s c ta m t now ap) = burnQueue ap"
    and "rescueMode (adv_eccControl s c ta m t now ap)"
    and "lastFuelWarningTime ap = Some t0 \<Longrightarrow> t0 \<noteq> 0 \<Longrightarrow> t - t0 \<le> 30 \<Longrightarrow>
         log_entries (adv_eccControl s c ta m t now ap) = log_entries ap"
  using assms by (simp_all add: adv_eccControl_def Let_def falsy_def logMessage_def)

lemma adv_sma_without_fuel:
  assumes "getEccentricity s < js_or (map_option warning (eccentricity c)) (1 / 1000) * (12 / 10)"
    and "\<bar>(getSMA s - (earthRadius + targetAlt c * 1000)) / 1000\<bar> >
         js_or (map_option warning (altitude_km c)) 5 * (3 / 10)"
    and "\<not> canExecute (selectBestThruster m (inventory_of c)
            (maneuver_dv (selectMinimumFuelManeuver (altitudeKm_of s) (targetAlt c)
               (getEccentricity s) (1 / 10000) 100)) False)"
  shows "burnQueue (adv_smaControl s c ta m t now ap) = burnQueue ap"
    and "rescueMode (adv_smaControl s c ta m t now ap)"
    and "lastManeuverWarningTime ap = Some t0 \<Longrightarrow> t0 \<noteq> 0 \<Longrightarrow> t - t0 \<le> 30 \<Longrightarrow>
         log_entries (adv_smaControl s c ta m t now ap) = log_entries ap"
  using assms by (simp_all add: adv_smaControl_def Let_def falsy_def logMessage_def)

lemma adv_drag_without_fuel:
  assumes "\<not> canExecute (selectBestThruster m (inventory_of c)
            (calculateDragAcceleration (altitudeKm_of s) * (2 * pi * sqrt (getSMA s ^ 3 / mu_earth)) * (7 / 10))
            (altitudeKm_of s < 1000))"
  shows "burnQueue (adv_dragCompensation s c ta m t now ap) = burnQueue ap"
    and "rescueMode (adv_dragCompensation s c ta m t now ap) = rescueMode ap"
    and "lastDragWarningTime ap = Some t0 \<Longrightarrow> t0 \<noteq> 0 \<Longrightarrow> t - t0 \<le> 60 \<Longrightarrow>
         log_entries (adv_dragCompensation s c ta m t now ap) = log_entries ap"
  using assms by (simp_all add: adv_dragCompensation_def Let_def falsy_def logMessage_def)

text \<open>The blocks of one tick at the perigee of the low orbit.\<close>

lemma adv_prelude_frame:
  "lastDragWarningTime (adv_budgetWarning s c t (adv_fuelWarning c t (adv_track s t ta (adv_heartbeat nowMs ap)))) =
     lastDragWarningTime ap"
  "missionSequencer (adv_budgetWarning s c t (adv_fuelWarning c t (adv_track s t ta (adv_heartbeat nowMs ap)))) =
     missionSequencer ap"
  by (simp_all add: adv_budgetWarning_def adv_fuelWarning_def adv_track_def adv_heartbeat_def Let_def
      logMessage_def)

lemma adv_ecc_low:
  "getEccentricity s \<le> js_or (map_option warning (eccentricity c)) (1 / 1000) * (8 / 10) \<Longrightarrow>
   adv_eccControl s c ta m t now ap = ap\<lparr>rescueMode := False\<rparr>"
  by (simp add: adv_eccControl_def Let_def)

lemma adv_sma_close:
  "\<bar>(getSMA s - (earthRadius + targetAlt c * 1000)) / 1000\<bar> \<le>
     js_or (map_option warning (altitude_km c)) 5 * (3 / 10) \<Longrightarrow>
   adv_smaControl s c ta m t now ap = ap"
  by (simp add: adv_smaControl_def Let_def)

lemma adv_omega_frame:
  assumes "\<not> nearApogee ta"
  shows "rescueMode (adv_controlArgumentOfPerigee s ta ap) = rescueMode ap"
    and "log_entries (adv_controlArgumentOfPerigee s ta ap) = log_entries ap"
    and "lastDragWarningTime (adv_controlArgumentOfPerigee s ta ap) = lastDragWarningTime ap"
    and "missionSequencer (adv_controlArgumentOfPerigee s ta ap) = missionSequencer ap"
  using assms by (simp_all add: adv_controlArgumentOfPerigee_def Let_def)

lemma adv_drag_warns:
  assumes "altitudeKm_of s < 150" "nearPerigee ta" "mu_earth \<le> getSMA s ^ 3"
    and "\<not> canExecute (selectBestThruster m (inventory_of c)
            (calculateDragAcceleration (altitudeKm_of s) * (2 * pi * sqrt (getSMA s ^ 3 / mu_earth)) * (7 / 10))
            (altitudeKm_of s < 1000))"
    and "falsy (lastDragWarningTime ap)"
  shows "adv_dragCompensation s c ta m t now ap =
     (logMessage (''[WARN] No fuel for drag reboost: '' @
                  choice_reason (selectBestThruster m (inventory_of c)
                     (calculateDragAcceleration (altitudeKm_of s) *
                      (2 * pi * sqrt (getSMA s ^ 3 / mu_earth)) * (7 / 10))
                     (altitudeKm_of s < 1000))) ap)
       \<lparr>lastDragWarningTime := Some t\<rparr>"
proof -
  have mu: "0 < mu_earth" by (simp add: mu_earth_def)
  have "1 \<le> getSMA s ^ 3 / mu_earth"
    using assms(3) mu by simp
  then have "1 \<le> sqrt (getSMA s ^ 3 / mu_earth)"
    by simp
  then have "1 * 2 \<le> sqrt (getSMA s ^ 3 / mu_earth) * pi"
    using pi_ge_two by (intro mult_mono) simp_all
  then have p: "2 \<le> pi * sqrt (getSMA s ^ 3 / mu_earth)"
    by (simp add: mult.commute)
  have d: "calculateDragAcceleration (altitudeKm_of s) = 1 / 2"
    using assms(1) by (simp add: calculateDragAcceleration_def)
  have a: "calculateDragAcceleration (altitudeKm_of s) > 1 / 10 ^ 10"
    unfolding d by simp
  have big: "calculateDragAcceleration (altitudeKm_of s) *
             (2 * pi * sqrt (getSMA s ^ 3 / mu_earth)) * (7 / 10) > 1 / 10"
    unfolding d using p by (simp; linarith)
  show ?thesis
    using assms(2,4,5) a big
    by (simp add: adv_dragCompensation_def Let_def mult_ac)
qed

lemma hd_logMessage: "hd (log_entries (logMessage m ap)) = m"
  by (cases "log_entries ap") (simp_all add: logMessage_def Let_def)

text \<open>
  Claim C4. A planned correction whose fuel check fails should queue no burn, set the rescue
  flag and log a throttled warning. The eccentricity and the semi-major-axis block do so,
  see \<open>adv_ecc_without_fuel\<close> and \<open>adv_sma_without_fuel\<close>; the drag block queues nothing
  and warns, but leaves the rescue flag as it finds it, see \<open>adv_drag_without_fuel\<close>. One tick of
  the enabled controller with empty tanks, at the perigee of an almost circular orbit 129 km
  above the surface with that altitude as its target: the only correction planned is the drag
  reboost, its fuel check fails, nothing is queued or fired, the warning is logged, and the
  rescue flag is off at the end of the tick (the early fuel warning had set it, the
  eccentricity block, finding the eccentricity low, cleared it).
\<close>

theorem drag_reboost_without_fuel:
  "enabled adv_enabled \<and> burnQueue adv_enabled = [] \<and>
   totalFuelRemaining skimming_constraints = 0 \<and>
   burnQueue (fst (adv_update skimming_state skimming_constraints 1000 100 5000 50 quiet_drift adv_enabled)) = [] \<and>
   snd (adv_update skimming_state skimming_constraints 1000 100 5000 50 quiet_drift adv_enabled) = [] \<and>
   hd (log_entries (fst (adv_update skimming_state skimming_constraints 1000 100 5000 50 quiet_drift adv_enabled))) =
     ''[WARN] No fuel for drag reboost: [ALARM] OUT OF FUEL - All propellant tanks empty!'' \<and>
   \<not> rescueMode (fst (adv_update skimming_state skimming_constraints 1000 100 5000 50 quiet_drift adv_enabled))"
proof -
  let ?s = skimming_state and ?c = skimming_constraints
  let ?msg = "''[WARN] No fuel for drag reboost: [ALARM] OUT OF FUEL - All propellant tanks empty!''"
  have en: "enabled adv_enabled" "argumentOfPerigee adv_enabled = 0" "burnQueue adv_enabled = []"
      "lastDragWarningTime adv_enabled = None" "missionPlan (missionSequencer adv_enabled) = []"
    by (simp_all add: adv_enabled_def adv_init_def)
  define X1 where "X1 = adv_budgetWarning ?s ?c 100
      (adv_fuelWarning ?c 100 (adv_track ?s 100 0 (adv_heartbeat 5000 adv_enabled)))"
  have x1: "burnQueue X1 = []" "lastDragWarningTime X1 = None" "missionPlan (missionSequencer X1) = []"
    unfolding X1_def by (simp_all add: adv_prelude_queue adv_prelude_frame en)
  have mol: "\<not> isMolniya ?c"
    by (simp add: isMolniya_def skimming_constraints_def dry_constraints_def leo_constraints_def)
  have ecc: "getEccentricity ?s \<le> js_or (map_option warning (eccentricity ?c)) (1 / 1000) * (8 / 10)"
    using skimming_ecc_bounds
    by (simp add: js_or_def skimming_constraints_def dry_constraints_def leo_constraints_def)
  have close: "\<bar>(getSMA ?s - (earthRadius + targetAlt ?c * 1000)) / 1000\<bar> \<le>
      js_or (map_option warning (altitude_km ?c)) 5 * (3 / 10)"
    using skimming_sma_bounds
    by (simp add: js_or_def skimming_constraints_def dry_constraints_def leo_constraints_def
        earthRadius_def)
  define Y where "Y = adv_controlArgumentOfPerigee ?s 0 (X1\<lparr>rescueMode := False\<rparr>)"
  have circ: "adv_circular quiet_drift ?s ?c 0 1000 100 50 X1 = adv_dragCompensation ?s ?c 0 1000 100 50 Y"
    by (simp add: adv_circular_def adv_applyDriftCorrections_def quiet_drift_def Let_def
        adv_plane_outside perigee_windows adv_ecc_low [OF ecc] adv_sma_close [OF close] Y_def)
  have y: "\<not> rescueMode Y" "burnQueue Y = []" "lastDragWarningTime Y = None"
      "missionPlan (missionSequencer Y) = []"
    unfolding Y_def using perigee_windows(2) by (simp_all add: adv_omega_frame adv_omega_outside x1)
  have nofuel: "selectBestThruster 1000 (inventory_of ?c) dv e =
      \<lparr> chosen = None, canExecute = False,
        choice_reason = ''[ALARM] OUT OF FUEL - All propellant tanks empty!'' \<rparr>" for dv e
    by (rule selectBestThruster_no_fuel) (rule empty_tanks_fuel)
  have "mu_earth \<le> 6500000 ^ 3"
    by (simp add: mu_earth_def)
  also have "\<dots> \<le> getSMA ?s ^ 3"
    using skimming_sma_bounds by (intro power_mono) simp_all
  finally have cube: "mu_earth \<le> getSMA ?s ^ 3" .
  have alt: "altitudeKm_of ?s < 150"
    by (simp add: skimming_altitude)
  have f: "falsy (lastDragWarningTime Y)"
    by (simp add: falsy_def y)
  have ne: "\<not> canExecute (selectBestThruster 1000 (inventory_of ?c)
            (calculateDragAcceleration (altitudeKm_of ?s) * (2 * pi * sqrt (getSMA ?s ^ 3 / mu_earth)) * (7 / 10))
            (altitudeKm_of ?s < 1000))"
    by (simp only: nofuel) simp
  have drag: "adv_dragCompensation ?s ?c 0 1000 100 50 Y =
      (logMessage ?msg Y)\<lparr>lastDragWarningTime := Some 100\<rparr>"
    by (simp only: adv_drag_warns [OF alt perigee_windows(1) cube ne f] nofuel) simp
  have plan: "adv_plan quiet_drift ?s ?c 0 1000 100 5000 50 adv_enabled =
      (logMessage ?msg Y)\<lparr>lastDragWarningTime := Some 100\<rparr>"
proof -
    have m: "missionPlan (missionSequencer ((logMessage ?msg Y)\<lparr>lastDragWarningTime := Some 100\<rparr>)) = []"
      by (simp add: logMessage_def Let_def y)
    have "adv_plan quiet_drift ?s ?c 0 1000 100 5000 50 adv_enabled =
        adv_missionSequencing ?s (adv_circular quiet_drift ?s ?c 0 1000 100 50 X1)"
      using mol by (simp add: adv_plan_def Let_def X1_def)
    also have "\<dots> = adv_missionSequencing ?s ((logMessage ?msg Y)\<lparr>lastDragWarningTime := Some 100\<rparr>)"
      by (simp only: circ drag)
    also have "\<dots> = (logMessage ?msg Y)\<lparr>lastDragWarningTime := Some 100\<rparr>"
      using m by (simp add: adv_missionSequencing_def Let_def)
    finally show ?thesis .
  qed
  have upd: "adv_update ?s ?c 1000 100 5000 50 quiet_drift adv_enabled =
      ((logMessage ?msg Y)\<lparr>lastDragWarningTime := Some 100\<rparr>, [])"
    by (simp add: adv_update_def en skimming_anomaly Let_def plan adv_execute_def y)
  have tot: "totalFuelRemaining ?c = 0"
    by (simp add: totalFuelRemaining_def empty_tanks_fuel)
  show ?thesis
    by (simp add: upd en y hd_logMessage tot)
qed

text \<open>The throttle of the warnings reads \<^verbatim>\<open>!this._lastFuelWarningTime\<close>, which is also
  true when the last warning was logged at mission time 0: the tick after it warns again.\<close>

lemma fuel_warning_repeats_after_time_zero:
  "log_entries (adv_eccControl apogee_state dry_constraints pi 1000 1 50
      (adv_eccControl apogee_state dry_constraints pi 1000 0 50 adv_enabled)) =
     [''[WARN] Cannot circularize: [ALARM] OUT OF FUEL - All propellant tanks empty!'',
      ''[WARN] Cannot circularize: [ALARM] OUT OF FUEL - All propellant tanks empty!'']"
proof -
  have "fuel_of empty_tanks k = 0" for k
    by (simp add: fuel_of_def empty_tanks_def js_or_def)
  then have nofuel: "selectBestThruster 1000 empty_tanks dv e =
      \<lparr> chosen = None, canExecute = False,
        choice_reason = ''[ALARM] OUT OF FUEL - All propellant tanks empty!'' \<rparr>" for dv e
    by (rule selectBestThruster_no_fuel)
  have e: "39 / 10000 < getEccentricity apogee_state"
    using apogee_state_ecc_bounds by simp
  show ?thesis
    using e
    by (simp add: adv_eccControl_def Let_def nofuel falsy_def logMessage_def adv_enabled_def
        adv_init_def js_or_def dry_constraints_def leo_constraints_def inventory_of_def)
qed

end
